theory Spec2Isabelle
  imports Complex_Main "HOL-Library.Log_Nat"
begin

section \<open>Time values\<close>

text \<open>
  A JavaScript \<open>Date\<close> is modelled by its \<open>getTime()\<close> value: the number of
  milliseconds since the epoch, an \<open>int\<close>. A timestamp column holds the ISO string of
  such a date (\<open>toISOString()\<close>) or null; reading it back with \<open>new Date(s).getTime()\<close>
  returns the same number, so a column is an \<open>int option\<close> and \<open>None\<close> is null.
  Invalid dates (NaN) appear only where the model says so.
\<close>

type_synonym time = int

definition msPerDay :: int where
  "msPerDay = 86400000"

text \<open>\<open>d.toISOString().split('T')[0]\<close>: the UTC calendar day, kept as a day number.\<close>

definition isoDate :: "time \<Rightarrow> int" where
  "isoDate t = t div msPerDay"

section \<open>JavaScript numbers\<close>

text \<open>
  A JavaScript number is an IEEE 754 double: NaN, an infinity, or a finite double, kept as the
  rational it denotes. The two zeros are one (\<open>-0\<close> is \<open>Fin 0\<close>): no computation below
  tells them apart.
\<close>

datatype jsnum = NaN | PosInf | NegInf | Fin rat

definition pow2 :: "int \<Rightarrow> rat" where
  "pow2 k = 2 powi k"

text \<open>Rounding to the nearest integer, a tie going to the even one.\<close>

definition roundHalfEven :: "rat \<Rightarrow> int" where
  "roundHalfEven x =
     (let f = \<lfloor>x\<rfloor>; r = x - of_int f
      in if r < 1 / 2 then f
         else if 1 / 2 < r then f + 1
         else if even f then f else f + 1)"

text \<open>
  The binary exponent of a non-zero rational: the \<open>e\<close> with \<open>2^e \<le> |x| < 2^(e+1)\<close>,
  from the bit length of the integer part, or of the reciprocal when \<open>|x| < 1\<close>.
\<close>

definition binade :: "rat \<Rightarrow> int" where
  "binade x =
     (if 1 \<le> \<bar>x\<bar> then bitlen \<lfloor>\<bar>x\<bar>\<rfloor> - 1 else - bitlen (\<lceil>1 / \<bar>x\<bar>\<rceil> - 1))"

text \<open>
  The double nearest to a rational (round to nearest, ties to even): 53 significant bits,
  exponents from -1022 (below that the spacing stays \<open>2^-1074\<close>), and an infinity from
  \<open>2^1024\<close> on. Every arithmetic operation of the language returns the exact result
  rounded this way.
\<close>

definition fl :: "rat \<Rightarrow> jsnum" where
  "fl x =
     (if x = 0 then Fin 0
      else
        (let ulp = pow2 (max (binade x) (- 1022) - 52);
             y = of_int (roundHalfEven (x / ulp)) * ulp
         in if pow2 1024 \<le> \<bar>y\<bar> then (if 0 < x then PosInf else NegInf) else Fin y))"

fun jneg :: "jsnum \<Rightarrow> jsnum" where
  "jneg NaN = NaN"
| "jneg PosInf = NegInf"
| "jneg NegInf = PosInf"
| "jneg (Fin x) = Fin (- x)"

fun jadd :: "jsnum \<Rightarrow> jsnum \<Rightarrow> jsnum" where
  "jadd (Fin x) (Fin y) = fl (x + y)"
| "jadd NaN b = NaN"
| "jadd a NaN = NaN"
| "jadd PosInf NegInf = NaN"
| "jadd NegInf PosInf = NaN"
| "jadd PosInf b = PosInf"
| "jadd a PosInf = PosInf"
| "jadd NegInf b = NegInf"
| "jadd a NegInf = NegInf"

definition jsub :: "jsnum \<Rightarrow> jsnum \<Rightarrow> jsnum" where
  "jsub a b = jadd a (jneg b)"

fun jsign :: "jsnum \<Rightarrow> int" where
  "jsign NaN = 0"
| "jsign PosInf = 1"
| "jsign NegInf = - 1"
| "jsign (Fin x) = (if 0 < x then 1 else if x < 0 then - 1 else 0)"

fun jmul :: "jsnum \<Rightarrow> jsnum \<Rightarrow> jsnum" where
  "jmul (Fin x) (Fin y) = fl (x * y)"
| "jmul NaN b = NaN"
| "jmul a NaN = NaN"
| "jmul a b =
     (if jsign a * jsign b = 0 then NaN
      else if 0 < jsign a * jsign b then PosInf else NegInf)"

fun jdiv :: "jsnum \<Rightarrow> jsnum \<Rightarrow> jsnum" where
  "jdiv NaN b = NaN"
| "jdiv a NaN = NaN"
| "jdiv (Fin x) (Fin y) =
     (if y = 0 then (if x = 0 then NaN else if 0 < x then PosInf else NegInf)
      else fl (x / y))"
| "jdiv (Fin x) b = Fin 0"
| "jdiv a (Fin y) = (if (0 \<le> y) = (a = PosInf) then PosInf else NegInf)"
| "jdiv a b = NaN"

text \<open>\<open>Math.floor(x)\<close> and \<open>Math.max(0, x)\<close>.\<close>

fun jfloor :: "jsnum \<Rightarrow> jsnum" where
  "jfloor (Fin x) = Fin (of_int \<lfloor>x\<rfloor>)"
| "jfloor a = a"

fun jmax0 :: "jsnum \<Rightarrow> jsnum" where
  "jmax0 NaN = NaN"
| "jmax0 PosInf = PosInf"
| "jmax0 NegInf = Fin 0"
| "jmax0 (Fin x) = Fin (max 0 x)"

text \<open>\<open>ToIntegerOrInfinity\<close> of a finite number: the fraction is dropped, towards zero.\<close>

definition toInteger :: "rat \<Rightarrow> int" where
  "toInteger x = (if 0 \<le> x then \<lfloor>x\<rfloor> else \<lceil>x\<rceil>)"

text \<open>
  What JSON sends for a number: the number, or null for NaN and the infinities. The two
  minute counts of the recorder are whole numbers, since grace period and threshold are.
\<close>

definition jsonInt :: "jsnum \<Rightarrow> int option" where
  "jsonInt a = (case a of Fin x \<Rightarrow> Some \<lfloor>x\<rfloor> | _ \<Rightarrow> None)"

definition jsonReal :: "jsnum \<Rightarrow> real option" where
  "jsonReal a = (case a of Fin x \<Rightarrow> Some (of_rat x) | _ \<Rightarrow> None)"

section \<open>Roster times: \<open>s.split(':').map(Number)\<close>\<close>

text \<open>
  A string is a list of code units; \<open>char\<close> has the code units below 256, which covers
  every character that \<open>Number\<close> gives a meaning to except the white space beyond U+00A0.
\<close>

fun split_on :: "char \<Rightarrow> string \<Rightarrow> string list" where
  "split_on c [] = [[]]"
| "split_on c (x # xs) =
     (if x = c then [] # split_on c xs
      else (case split_on c xs of
              [] \<Rightarrow> [[x]]
            | w # ws \<Rightarrow> (x # w) # ws))"

text \<open>
  \<open>Number(s)\<close> is \<open>StringToNumber\<close>: white space and line terminators are trimmed from
  both ends; the empty rest is 0; \<open>0x\<close>, \<open>0o\<close> and \<open>0b\<close> (either case) start an
  unsigned integer in that radix; otherwise an optional sign is followed by \<open>Infinity\<close> or by
  a decimal literal, which is digits with an optional fraction (\<open>5.\<close> and \<open>.5\<close> are
  literals, \<open>.\<close> is not) and an optional exponent. Anything else is NaN. The value is the
  nearest double.
\<close>

definition is_ws :: "char \<Rightarrow> bool" where
  "is_ws c = ((of_char c :: nat) \<in> {9, 10, 11, 12, 13, 32, 160})"

definition trim :: "string \<Rightarrow> string" where
  "trim s = rev (dropWhile is_ws (rev (dropWhile is_ws s)))"

definition is_digit :: "char \<Rightarrow> bool" where
  "is_digit c = (48 \<le> (of_char c :: nat) \<and> (of_char c :: nat) \<le> 57)"

definition digitValue :: "char \<Rightarrow> nat option" where
  "digitValue c =
     (let n = (of_char c :: nat)
      in if 48 \<le> n \<and> n \<le> 57 then Some (n - 48)
         else if 97 \<le> n \<and> n \<le> 102 then Some (n - 87)
         else if 65 \<le> n \<and> n \<le> 70 then Some (n - 55)
         else None)"

definition digitsIn :: "nat \<Rightarrow> string \<Rightarrow> bool" where
  "digitsIn radix s =
     (s \<noteq> [] \<and>
      list_all (\<lambda>c. case digitValue c of Some d \<Rightarrow> d < radix | None \<Rightarrow> False) s)"

definition valueIn :: "nat \<Rightarrow> string \<Rightarrow> int" where
  "valueIn radix s =
     foldl (\<lambda>a c. int radix * a + (case digitValue c of Some d \<Rightarrow> int d | None \<Rightarrow> 0)) 0 s"

definition exponentPart :: "string \<Rightarrow> int option" where
  "exponentPart s =
     (case s of
        [] \<Rightarrow> Some 0
      | c # r \<Rightarrow>
          if c = CHR ''e'' \<or> c = CHR ''E'' then
            (case r of
               [] \<Rightarrow> None
             | d # ds \<Rightarrow>
                 if d = CHR ''+'' then (if digitsIn 10 ds then Some (valueIn 10 ds) else None)
                 else if d = CHR ''-'' then
                   (if digitsIn 10 ds then Some (- valueIn 10 ds) else None)
                 else (if digitsIn 10 r then Some (valueIn 10 r) else None))
          else None)"

definition decimalLiteral :: "string \<Rightarrow> rat option" where
  "decimalLiteral u =
     (let ip = takeWhile is_digit u;
          r1 = dropWhile is_digit u;
          dotted = (r1 \<noteq> [] \<and> hd r1 = CHR ''.'');
          fp = (if dotted then takeWhile is_digit (tl r1) else []);
          r2 = (if dotted then dropWhile is_digit (tl r1) else r1)
      in if ip = [] \<and> fp = [] then None
         else
           (case exponentPart r2 of
              None \<Rightarrow> None
            | Some ex \<Rightarrow>
                Some ((of_int (valueIn 10 ip) + of_int (valueIn 10 fp) / 10 ^ length fp)
                      * 10 powi ex)))"

definition radixOf :: "string \<Rightarrow> nat option" where
  "radixOf t =
     (case t of
        z # p # _ \<Rightarrow>
          if z = CHR ''0'' then
            (if p = CHR ''x'' \<or> p = CHR ''X'' then Some 16
             else if p = CHR ''o'' \<or> p = CHR ''O'' then Some 8
             else if p = CHR ''b'' \<or> p = CHR ''B'' then Some 2
             else None)
          else None
      | _ \<Rightarrow> None)"

definition signedLiteral :: "rat \<Rightarrow> string \<Rightarrow> jsnum" where
  "signedLiteral sign u =
     (if u = ''Infinity'' then (if 0 < sign then PosInf else NegInf)
      else (case decimalLiteral u of None \<Rightarrow> NaN | Some v \<Rightarrow> fl (sign * v)))"

definition Number :: "string \<Rightarrow> jsnum" where
  "Number s =
     (let t = trim s
      in if t = [] then Fin 0
         else
           (case radixOf t of
              Some radix \<Rightarrow>
                if digitsIn radix (drop 2 t) then fl (of_int (valueIn radix (drop 2 t)))
                else NaN
            | None \<Rightarrow>
                (case t of
                   c # u \<Rightarrow>
                     if c = CHR ''+'' then signedLiteral 1 u
                     else if c = CHR ''-'' then signedLiteral (- 1) u
                     else signedLiteral 1 t
                 | [] \<Rightarrow> Fin 0)))"

text \<open>
  \<open>const [hours, minutes] = s.split(':').map(Number)\<close>: the first two components; a missing
  second component is \<open>undefined\<close>, which \<open>setHours\<close> and arithmetic turn into NaN.
\<close>

definition hoursMinutes :: "string \<Rightarrow> jsnum \<times> jsnum" where
  "hoursMinutes s =
     (case map Number (split_on CHR '':'' s) of
        hours # minutes # _ \<Rightarrow> (hours, minutes)
      | [hours] \<Rightarrow> (hours, NaN)
      | [] \<Rightarrow> (NaN, NaN))"

section \<open>Dates in the local time zone\<close>

text \<open>
  The host's time zone as ECMAScript sees it: \<open>utcOffset t\<close> is the offset of local time
  from UTC, in milliseconds, in force at the instant \<open>t\<close> (\<open>LocalTZA(t, true)\<close>);
  \<open>localOffset l\<close> is the offset used to read the local time value \<open>l\<close>
  (\<open>LocalTZA(l, false)\<close>). The two differ around a daylight-saving change. Offsets are whole
  milliseconds of less than a day.
\<close>

record zone =
  utcOffset :: "time \<Rightarrow> int"
  localOffset :: "time \<Rightarrow> int"

definition fixedZone :: "int \<Rightarrow> zone" where
  "fixedZone z = \<lparr> utcOffset = (\<lambda>_. z), localOffset = (\<lambda>_. z) \<rparr>"

text \<open>
  \<open>TimeClip\<close>: a time value is a whole number of milliseconds of absolute value at most
  8.64e15; anything else is the invalid date, \<open>None\<close>. \<open>new Date(d)\<close> clips the time value
  of \<open>d\<close>.
\<close>

definition timeClip :: "jsnum \<Rightarrow> time option" where
  "timeClip a =
     (case a of
        Fin x \<Rightarrow> if \<bar>x\<bar> \<le> 8640000000000000 then Some (toInteger x) else None
      | _ \<Rightarrow> None)"

definition newDate :: "time option \<Rightarrow> time option" where
  "newDate d = Option.bind d (\<lambda>t. timeClip (Fin (of_int t)))"

text \<open>
  \<open>MakeTime(hour, min, 0, 0)\<close> and \<open>MakeDate(day, time)\<close>. The seconds and milliseconds
  are the literal 0, and adding 0 changes no number.
\<close>

definition makeTime :: "jsnum \<Rightarrow> jsnum \<Rightarrow> jsnum" where
  "makeTime hour minute =
     (case (hour, minute) of
        (Fin h, Fin m) \<Rightarrow>
          jadd (jmul (Fin (of_int (toInteger h))) (Fin 3600000))
               (jmul (Fin (of_int (toInteger m))) (Fin 60000))
      | _ \<Rightarrow> NaN)"

definition makeDate :: "int \<Rightarrow> jsnum \<Rightarrow> jsnum" where
  "makeDate day time =
     (case time of
        Fin _ \<Rightarrow>
          (case jadd (jmul (Fin (of_int day)) (Fin (of_int msPerDay))) time of
             Fin tv \<Rightarrow> Fin tv
           | _ \<Rightarrow> NaN)
      | _ \<Rightarrow> NaN)"

text \<open>
  \<open>d.setHours(hours, minutes, 0, 0)\<close> for a valid date \<open>t\<close>: the local calendar day of
  \<open>t\<close> with the time of day replaced, read back as a local time
  (\<open>TimeClip(UTC(MakeDate(Day(LocalTime(t)), MakeTime(hours, minutes, 0, 0))))\<close>).
\<close>

definition setHours :: "zone \<Rightarrow> time \<Rightarrow> jsnum \<Rightarrow> jsnum \<Rightarrow> time option" where
  "setHours Z t hours minutes =
     (let local = t + utcOffset Z t
      in case makeDate (local div msPerDay) (makeTime hours minutes) of
           Fin date \<Rightarrow> timeClip (jsub (Fin date) (Fin (of_int (localOffset Z \<lfloor>date\<rfloor>))))
         | _ \<Rightarrow> None)"

section \<open>Time and metrics calculator\<close>

text \<open>
  \<open>calculateLateness\<close> and \<open>calculateEarlyDeparture\<close>. The current time is optional
  because the recorder passes \<open>new Date('')\<close>, an invalid date, when the existing record
  has no first check-in. Grace period and threshold are whole numbers of minutes.
\<close>

definition calculateLateness :: "zone \<Rightarrow> time option \<Rightarrow> string \<Rightarrow> int \<Rightarrow> jsnum" where
  "calculateLateness Z currentTime rosterStartTime gracePeriod =
     (case hoursMinutes rosterStartTime of
        (hours, minutes) \<Rightarrow>
          (case newDate currentTime of
             None \<Rightarrow> NaN
           | Some now \<Rightarrow>
               (case setHours Z now hours minutes of
                  None \<Rightarrow> NaN
                | Some startTime \<Rightarrow>
                    (let lateMinutes =
                           jfloor (jdiv (jsub (Fin (of_int now)) (Fin (of_int startTime)))
                                        (Fin 60000))
                     in jmax0 (jsub lateMinutes (Fin (of_int gracePeriod)))))))"

definition calculateEarlyDeparture :: "zone \<Rightarrow> time option \<Rightarrow> string \<Rightarrow> int \<Rightarrow> jsnum" where
  "calculateEarlyDeparture Z currentTime rosterEndTime threshold =
     (case hoursMinutes rosterEndTime of
        (hours, minutes) \<Rightarrow>
          (case newDate currentTime of
             None \<Rightarrow> NaN
           | Some now \<Rightarrow>
               (case setHours Z now hours minutes of
                  None \<Rightarrow> NaN
                | Some endTime \<Rightarrow>
                    (let earlyMinutes =
                           jfloor (jdiv (jsub (Fin (of_int endTime)) (Fin (of_int now)))
                                        (Fin 60000))
                     in jmax0 (jsub earlyMinutes (Fin (of_int threshold)))))))"

definition calculateExpectedHours :: "string \<Rightarrow> string \<Rightarrow> int \<Rightarrow> jsnum" where
  "calculateExpectedHours startTime endTime breakDuration =
     (case (hoursMinutes startTime, hoursMinutes endTime) of
        ((startHours, startMinutes), (endHours, endMinutes)) \<Rightarrow>
          (let totalMinutes =
                 jsub (jsub (jadd (jmul endHours (Fin 60)) endMinutes)
                            (jadd (jmul startHours (Fin 60)) startMinutes))
                      (Fin (of_int breakDuration))
           in jmax0 (jdiv totalMinutes (Fin 60))))"

section \<open>Attendance rows\<close>

text \<open>
  A row of the \<open>attendance\<close> table, and also the object the recorder sends to the store:
  there \<open>rec_id\<close> is \<open>None\<close> when the object has no \<open>id\<close> (or \<open>id: undefined\<close>).
  Row identifiers are database-generated; they are numbered here. \<open>check_in_time\<close> and
  \<open>check_out_time\<close> are the columns that \<open>generateUniqueTimestamp\<close> reads; the recorder
  never sends them. \<open>minutes_late\<close>, \<open>early_departure_minutes\<close> and \<open>expected_hours\<close>
  are \<open>None\<close> when the computed number is NaN, which JSON sends as null.
\<close>

record attendance =
  rec_id :: "nat option"
  employee_id :: string
  roster_id :: string
  date :: int
  first_check_in_time :: "time option"
  first_check_out_time :: "time option"
  second_check_in_time :: "time option"
  second_check_out_time :: "time option"
  is_second_session :: bool
  previous_session_id :: "nat option"
  status :: string
  minutes_late :: "int option"
  early_departure_minutes :: "int option"
  break_duration :: int
  expected_hours :: "real option"
  last_action :: "time option"
  check_in_time :: "time option"
  check_out_time :: "time option"

text \<open>
  \<open>calculateActualHours(record, currentTime, breakDuration)\<close>. The record may be null
  (\<open>record?.first_check_in_time\<close>). Each session is floored to whole minutes on its own;
  the break is subtracted from the sum and the result divided by 60 without rounding.
\<close>

definition calculateActualHours :: "attendance option \<Rightarrow> time \<Rightarrow> int \<Rightarrow> real" where
  "calculateActualHours record currentTime breakDuration =
     (case record of
        None \<Rightarrow> 0
      | Some r \<Rightarrow>
          (case first_check_in_time r of
             None \<Rightarrow> 0
           | Some firstCheckIn \<Rightarrow>
               (let first =
                      (case first_check_out_time r of
                         Some firstCheckOut \<Rightarrow> (firstCheckOut - firstCheckIn) div 60000
                       | None \<Rightarrow> 0);
                    second =
                      (case second_check_in_time r of
                         Some secondCheckIn \<Rightarrow>
                           (case second_check_out_time r of
                              Some secondCheckOut \<Rightarrow> (secondCheckOut - secondCheckIn) div 60000
                            | None \<Rightarrow> (currentTime - secondCheckIn) div 60000)
                       | None \<Rightarrow> 0);
                    totalMinutes = first + second
                in max 0 (real_of_int (totalMinutes - breakDuration) / 60))))"

text \<open>
  The specification's \<open>actualHours\<close>, word for word: the sum of (checkout - checkin) over
  each completed session, plus (now - checkin) for an open session, minus the break, floored
  at 0. An open first session is one with a first check-in and no first check-out.
\<close>

definition actualHours_spec :: "attendance \<Rightarrow> time \<Rightarrow> int \<Rightarrow> real" where
  "actualHours_spec r now breakMinutes =
     (let session = (\<lambda>checkin checkout.
            (case checkin of
               None \<Rightarrow> 0
             | Some i \<Rightarrow> (case checkout of Some out \<Rightarrow> (out - i) div 60000
                                        | None \<Rightarrow> (now - i) div 60000)))
      in max 0 (real_of_int
           (session (first_check_in_time r) (first_check_out_time r)
            + session (second_check_in_time r) (second_check_out_time r)
            - breakMinutes) / 60))"

text \<open>A row with no timestamps, as the recorder's object literals start out.\<close>

definition blank :: attendance where
  "blank = \<lparr> rec_id = None, employee_id = [], roster_id = [], date = 0,
     first_check_in_time = None, first_check_out_time = None,
     second_check_in_time = None, second_check_out_time = None,
     is_second_session = False, previous_session_id = None, status = [],
     minutes_late = None, early_departure_minutes = None, break_duration = 0,
     expected_hours = None, last_action = None,
     check_in_time = None, check_out_time = None \<rparr>"

section \<open>The record store\<close>

text \<open>
  The store is consumed through the Supabase client. A query either throws, or answers
  \<open>{data, error}\<close>. The tables are lists in creation order (oldest first), so
  \<open>order('created_at', {ascending: false}).limit(1)\<close> is the last matching row.
  \<open>fault\<close> is how the client answers during the call: normally, with an error
  response to every request, or by throwing.
\<close>

datatype fault = Healthy | ErrorResponse string | Throws string

datatype 'a fetched = Threw string | Failed string | Got 'a

record employee =
  emp_id :: string
  first_name :: string
  last_name :: string
  emp_status :: string

record store =
  employees :: "employee list"
  attendance_tbl :: "attendance list"
  next_id :: nat
  fault :: fault

text \<open>
  \<open>.maybeSingle()\<close> answers null for no row, the row for one, and an error for more than
  one; \<open>.single()\<close> also answers an error for no row.
\<close>

definition maybeSingle :: "fault \<Rightarrow> 'a list \<Rightarrow> 'a option fetched" where
  "maybeSingle f rows =
     (case f of
        Throws m \<Rightarrow> Threw m
      | ErrorResponse m \<Rightarrow> Failed m
      | Healthy \<Rightarrow>
          (case rows of
             [] \<Rightarrow> Got None
           | [r] \<Rightarrow> Got (Some r)
           | _ \<Rightarrow> Failed ''JSON object requested, multiple (or no) rows returned''))"

definition single :: "fault \<Rightarrow> 'a list \<Rightarrow> 'a fetched" where
  "single f rows =
     (case f of
        Throws m \<Rightarrow> Threw m
      | ErrorResponse m \<Rightarrow> Failed m
      | Healthy \<Rightarrow>
          (case rows of
             [r] \<Rightarrow> Got r
           | _ \<Rightarrow> Failed ''JSON object requested, multiple (or no) rows returned''))"

text \<open>
  \<open>from('attendance').select('*').eq('employee_id', employeeId).eq('date', today).maybeSingle()\<close>
  with \<open>today = new Date().toISOString().split('T')[0]\<close>. The two \<open>new Date()\<close> calls of
  the recorder are the one instant \<open>now\<close>.
\<close>

definition todaysRecord :: "store \<Rightarrow> string \<Rightarrow> time \<Rightarrow> attendance option fetched" where
  "todaysRecord st employeeId now =
     maybeSingle (fault st)
       (filter (\<lambda>r. employee_id r = employeeId \<and> date r = isoDate now) (attendance_tbl st))"

section \<open>The next action\<close>

datatype AttendanceAction =
  first_check_in | first_check_out | second_check_in | second_check_out | completed

text \<open>\<open>getNextAttendanceAction\<close>, the part after the lookup succeeded.\<close>

definition nextActionOf :: "attendance option \<Rightarrow> AttendanceAction" where
  "nextActionOf record =
     (case record of
        None \<Rightarrow> first_check_in
      | Some r \<Rightarrow>
          if first_check_in_time r = None then first_check_in
          else if first_check_out_time r = None then first_check_out
          else if second_check_in_time r = None then second_check_in
          else if second_check_out_time r = None then second_check_out
          else completed)"

definition getNextAttendanceAction :: "store \<Rightarrow> time \<Rightarrow> string \<Rightarrow> AttendanceAction" where
  "getNextAttendanceAction st now employeeId =
     (case todaysRecord st employeeId now of
        Threw _ \<Rightarrow> first_check_in
      | Failed _ \<Rightarrow> first_check_in
      | Got record \<Rightarrow> nextActionOf record)"

section \<open>Today's summary\<close>

record statusCounts =
  currentlyPresent :: int
  lateButPresent :: int
  checkedOut :: int
  onTimeArrivals :: int
  absent :: int

definition zeroCounts :: statusCounts where
  "zeroCounts = \<lparr> currentlyPresent = 0, lateButPresent = 0, checkedOut = 0,
                   onTimeArrivals = 0, absent = 0 \<rparr>"

text \<open>
  The body of \<open>attendanceData.forEach\<close>. A null \<open>minutes_late\<close> is neither \<open>> 0\<close> nor
  \<open>=== 0\<close>.
\<close>

definition countRecord :: "statusCounts \<Rightarrow> attendance \<Rightarrow> statusCounts" where
  "countRecord c record =
     (if first_check_in_time record \<noteq> None \<and> first_check_out_time record = None then
        (let c1 = c\<lparr>currentlyPresent := currentlyPresent c + 1\<rparr>
         in if (case minutes_late record of Some n \<Rightarrow> n > 0 | None \<Rightarrow> False)
            then c1\<lparr>lateButPresent := lateButPresent c1 + 1\<rparr>
            else c1\<lparr>onTimeArrivals := onTimeArrivals c1 + 1\<rparr>)
      else if second_check_in_time record \<noteq> None \<and> second_check_out_time record = None then
        c\<lparr>currentlyPresent := currentlyPresent c + 1\<rparr>
      else if second_check_out_time record \<noteq> None
              \<or> (first_check_out_time record \<noteq> None \<and> second_check_in_time record = None) then
        (let c1 = c\<lparr>checkedOut := checkedOut c + 1\<rparr>
         in if minutes_late record = Some 0
            then c1\<lparr>onTimeArrivals := onTimeArrivals c1 + 1\<rparr>
            else c1)
      else c)"

record summary =
  totalEmployees :: int
  presentCount :: int
  presenceBreakdown :: statusCounts

text \<open>
  \<open>getTodayAttendanceSummary\<close>. Any failed query is thrown and caught, and the all-zero
  summary is returned. The rate strings (\<open>toFixed(1)\<close> of floating-point quotients) and the
  fields that repeat a count under another name are left out.
\<close>

definition getTodayAttendanceSummary :: "store \<Rightarrow> time \<Rightarrow> summary" where
  "getTodayAttendanceSummary st now =
     (case fault st of
        Healthy \<Rightarrow>
          (let today = isoDate now;
               activeEmployees = filter (\<lambda>e. emp_status e = ''active'') (employees st);
               totalEmployees = int (length activeEmployees);
               attendanceData = filter (\<lambda>r. date r = today) (attendance_tbl st);
               counts = foldl countRecord zeroCounts attendanceData;
               counts' = counts\<lparr>absent :=
                           max 0 (totalEmployees - (currentlyPresent counts + checkedOut counts))\<rparr>
           in \<lparr> totalEmployees = totalEmployees,
                presentCount = currentlyPresent counts' + checkedOut counts',
                presenceBreakdown = counts' \<rparr>)
      | _ \<Rightarrow> \<lparr> totalEmployees = 0, presentCount = 0, presenceBreakdown = zeroCounts \<rparr>)"

text \<open>
  The classification in the specification's order of precedence: (a) second session open,
  counted as currently present; (b) first session open, counted as currently present and
  split into late and on time; (c) a completed-session marker, counted as checked out.
\<close>

definition countRecord_spec :: "statusCounts \<Rightarrow> attendance \<Rightarrow> statusCounts" where
  "countRecord_spec c record =
     (if second_check_in_time record \<noteq> None \<and> second_check_out_time record = None then
        c\<lparr>currentlyPresent := currentlyPresent c + 1\<rparr>
      else if first_check_in_time record \<noteq> None \<and> first_check_out_time record = None then
        (let c1 = c\<lparr>currentlyPresent := currentlyPresent c + 1\<rparr>
         in if (case minutes_late record of Some n \<Rightarrow> n > 0 | None \<Rightarrow> False)
            then c1\<lparr>lateButPresent := lateButPresent c1 + 1\<rparr>
            else c1\<lparr>onTimeArrivals := onTimeArrivals c1 + 1\<rparr>)
      else if second_check_out_time record \<noteq> None
              \<or> (first_check_out_time record \<noteq> None \<and> second_check_in_time record = None) then
        (let c1 = c\<lparr>checkedOut := checkedOut c + 1\<rparr>
         in if minutes_late record = Some 0
            then c1\<lparr>onTimeArrivals := onTimeArrivals c1 + 1\<rparr>
            else c1)
      else c)"

section \<open>Errors\<close>

text \<open>
  \<open>AttendanceError m\<close> is \<open>new AttendanceError(m)\<close>; \<open>Thrown m\<close> is any other exception
  with message \<open>m\<close>, as the client throws.
\<close>

datatype failure = AttendanceError string | Thrown string

section \<open>The uniqueness guard\<close>

datatype scanType = check_in | check_out

text \<open>
  The first query of the loop body: the employee's latest row of the day. Its \<open>error\<close> is
  not read, so an error response leaves \<open>lastRecord\<close> null.
\<close>

definition lastRecordOfDay :: "store \<Rightarrow> string \<Rightarrow> int \<Rightarrow> failure + attendance option" where
  "lastRecordOfDay st employeeId today =
     (case fault st of
        Throws m \<Rightarrow> Inl (Thrown m)
      | ErrorResponse m \<Rightarrow> Inr None
      | Healthy \<Rightarrow>
          (case rev (filter (\<lambda>r. employee_id r = employeeId \<and> date r = today)
                       (attendance_tbl st)) of
             [] \<Rightarrow> Inr None
           | r # _ \<Rightarrow> Inr (Some r)))"

text \<open>The two minimum-gap rules of the loop body (15 minutes).\<close>

definition floorTime :: "attendance option \<Rightarrow> time \<Rightarrow> scanType \<Rightarrow> time \<Rightarrow> time" where
  "floorTime lastRecord baseTime type uniqueTime =
     (let u1 =
            (if type = check_out then
               (case Option.bind lastRecord check_in_time of
                  Some lastCheckIn \<Rightarrow>
                    (let minCheckOutTime = lastCheckIn + 15 * 60 * 1000
                     in if baseTime < minCheckOutTime then minCheckOutTime else uniqueTime)
                | None \<Rightarrow> uniqueTime)
             else uniqueTime)
      in (if type = check_in then
            (case Option.bind lastRecord check_out_time of
               Some lastCheckOut \<Rightarrow>
                 (let minNextCheckIn = lastCheckOut + 15 * 60 * 1000
                  in if baseTime < minNextCheckIn then minNextCheckIn else u1)
             | None \<Rightarrow> u1)
          else u1))"

text \<open>The probe: the employee's rows holding exactly this timestamp in the column of the type.\<close>

definition collisions :: "store \<Rightarrow> string \<Rightarrow> scanType \<Rightarrow> time \<Rightarrow> attendance list" where
  "collisions st employeeId type uniqueTime =
     filter (\<lambda>r. employee_id r = employeeId \<and>
                 (case type of
                    check_in \<Rightarrow> check_in_time r = Some uniqueTime
                  | check_out \<Rightarrow> check_out_time r = Some uniqueTime))
            (attendance_tbl st)"

definition probe :: "store \<Rightarrow> string \<Rightarrow> scanType \<Rightarrow> time \<Rightarrow> attendance option fetched" where
  "probe st employeeId type uniqueTime =
     maybeSingle (fault st) (collisions st employeeId type uniqueTime)"

text \<open>
  The \<open>while (attempt < 10)\<close> loop of \<open>generateUniqueTimestamp\<close>, with its two variables
  \<open>uniqueTime\<close> and \<open>attempt\<close>.
\<close>

function generateLoop ::
  "store \<Rightarrow> string \<Rightarrow> time \<Rightarrow> scanType \<Rightarrow> time \<Rightarrow> nat \<Rightarrow> failure + time" where
  "generateLoop st employeeId baseTime type uniqueTime attempt =
     (if attempt < 10 then
        (case lastRecordOfDay st employeeId (isoDate baseTime) of
           Inl e \<Rightarrow> Inl e
         | Inr lastRecord \<Rightarrow>
             (case probe st employeeId type
                     (floorTime lastRecord baseTime type uniqueTime + 1000 * int attempt) of
                Threw m \<Rightarrow> Inl (Thrown m)
              | Failed _ \<Rightarrow> Inl (AttendanceError ''Failed to generate unique timestamp'')
              | Got None \<Rightarrow>
                  Inr (floorTime lastRecord baseTime type uniqueTime + 1000 * int attempt)
              | Got (Some _) \<Rightarrow>
                  generateLoop st employeeId baseTime type
                    (floorTime lastRecord baseTime type uniqueTime + 1000 * int attempt)
                    (attempt + 1)))
      else Inl (AttendanceError ''Unable to generate unique timestamp''))"
  by pat_completeness auto
termination
  by (relation "measure (\<lambda>(st, employeeId, baseTime, type, uniqueTime, attempt). 10 - attempt)")
     auto

declare generateLoop.simps [simp del]

definition generateUniqueTimestamp ::
  "store \<Rightarrow> string \<Rightarrow> time \<Rightarrow> scanType \<Rightarrow> failure + time" where
  "generateUniqueTimestamp st employeeId baseTime type =
     generateLoop st employeeId baseTime type baseTime 0"

text \<open>
  The loop variable \<open>uniqueTime\<close> after \<open>n\<close> rounds of the loop body, when the first query
  answers \<open>lastRecord\<close> in each; \<open>candidate k\<close> is the timestamp that round \<open>k\<close> probes,
  the rounds counted from 0.
\<close>

fun uniqueTimeAfter :: "attendance option \<Rightarrow> time \<Rightarrow> scanType \<Rightarrow> nat \<Rightarrow> time" where
  "uniqueTimeAfter lastRecord baseTime type 0 = baseTime"
| "uniqueTimeAfter lastRecord baseTime type (Suc n) =
     floorTime lastRecord baseTime type (uniqueTimeAfter lastRecord baseTime type n)
       + 1000 * int n"

definition candidate :: "attendance option \<Rightarrow> time \<Rightarrow> scanType \<Rightarrow> nat \<Rightarrow> time" where
  "candidate lastRecord baseTime type k = uniqueTimeAfter lastRecord baseTime type (Suc k)"

text \<open>
  The minimum-gap rule as the specification words it: a quarter of an hour after the check-in
  of the latest row for a check-out, after its check-out for a check-in. The columns are the
  ones the guard reads, \<open>check_in_time\<close> and \<open>check_out_time\<close>.
\<close>

definition minimumTime :: "attendance option \<Rightarrow> scanType \<Rightarrow> time option" where
  "minimumTime lastRecord type =
     map_option (\<lambda>t. t + 15 * 60 * 1000)
       (Option.bind lastRecord
          (case type of check_in \<Rightarrow> check_out_time | check_out \<Rightarrow> check_in_time))"

section \<open>The recorder\<close>

record roster =
  ros_id :: string
  start_time :: string
  end_time :: string
  grace_period :: int
  early_departure_threshold :: int
  ros_break_duration :: int

text \<open>
  What the recorder uses and this file does not define: the local time zone;
  \<open>getEmployeeRoster\<close>, whose result (a roster or null) is taken as it comes; and the
  constraints of the \<open>attendance\<close> table, taken as the database's verdict on a write:
  \<open>None\<close> accepts it, \<open>Some message\<close> rejects it with that error message.
\<close>

record env =
  tz :: zone
  getEmployeeRoster :: "string \<Rightarrow> roster option"
  db_check :: "attendance list \<Rightarrow> attendance \<Rightarrow> string option"

text \<open>\<open>message.includes(part)\<close>.\<close>

fun starts_with :: "string \<Rightarrow> string \<Rightarrow> bool" where
  "starts_with s [] = True"
| "starts_with [] (p # ps) = False"
| "starts_with (c # s) (p # ps) = (c = p \<and> starts_with s ps)"

fun str_includes :: "string \<Rightarrow> string \<Rightarrow> bool" where
  "str_includes [] part = (part = [])"
| "str_includes (c # s) part = (starts_with (c # s) part \<or> str_includes s part)"

text \<open>Lines 243 to 259: the next action and status from the existing record.\<close>

definition determineAction :: "attendance option \<Rightarrow> failure + AttendanceAction \<times> string" where
  "determineAction existingRecord =
     (case existingRecord of
        None \<Rightarrow> Inr (first_check_in, ''CHECKED_IN'')
      | Some r \<Rightarrow>
          if first_check_out_time r = None \<and> first_check_in_time r \<noteq> None then
            Inr (first_check_out, ''ON_BREAK'')
          else if second_check_in_time r = None \<and> first_check_out_time r \<noteq> None then
            Inr (second_check_in, ''CHECKED_IN'')
          else if second_check_out_time r = None \<and> second_check_in_time r \<noteq> None then
            Inr (second_check_out, ''COMPLETED'')
          else Inl (AttendanceError ''All attendance actions completed for today''))"

text \<open>
  Lines 261 to 279: the sequence check, made only when a record exists. The compared field
  is set whenever its case is reached; \<open>None\<close> there would be NaN, and \<open>newTime <= NaN\<close>
  is false.
\<close>

definition validateSequence :: "attendance option \<Rightarrow> AttendanceAction \<Rightarrow> time \<Rightarrow> failure option" where
  "validateSequence existingRecord nextAction newTime =
     (case existingRecord of
        None \<Rightarrow> None
      | Some r \<Rightarrow>
          (case nextAction of
             first_check_out \<Rightarrow>
               (case first_check_in_time r of
                  Some t \<Rightarrow> if newTime \<le> t
                            then Some (AttendanceError ''Check-out time must be after check-in time'')
                            else None
                | None \<Rightarrow> None)
           | second_check_in \<Rightarrow>
               (case first_check_out_time r of
                  Some t \<Rightarrow> if newTime \<le> t
                            then Some (AttendanceError
                                   ''Second check-in time must be after first check-out time'')
                            else None
                | None \<Rightarrow> None)
           | second_check_out \<Rightarrow>
               (case second_check_in_time r of
                  Some t \<Rightarrow> if newTime \<le> t
                            then Some (AttendanceError
                                   ''Second check-out time must be after second check-in time'')
                            else None
                | None \<Rightarrow> None)
           | _ \<Rightarrow> None))"

datatype storeWrite = Insert attendance | Upsert attendance

text \<open>
  Lines 282 to 316 and 362 to 380: the metrics and the object sent to the store. For
  \<open>second_check_in\<close> the object has no \<open>id\<close> and is inserted; for the other actions it
  carries \<open>existingRecord?.id\<close> and is upserted.
\<close>

definition buildWrite ::
  "env \<Rightarrow> string \<Rightarrow> roster \<Rightarrow> attendance option \<Rightarrow> AttendanceAction \<Rightarrow> string \<Rightarrow> time \<Rightarrow> storeWrite" where
  "buildWrite ev employeeId ros existingRecord nextAction nextStatus currentTime =
     (let today = isoDate currentTime;
          minutesLate =
            jsonInt (calculateLateness (tz ev)
              (if nextAction = first_check_in then Some currentTime
               else Option.bind existingRecord first_check_in_time)
              (start_time ros) (grace_period ros));
          earlyDepartureMinutes =
            (if nextAction = second_check_out
             then jsonInt (calculateEarlyDeparture (tz ev) (Some currentTime) (end_time ros)
                             (early_departure_threshold ros))
             else Some 0);
          expectedHours =
            jsonReal (calculateExpectedHours (start_time ros) (end_time ros)
                        (ros_break_duration ros))
      in if nextAction = second_check_in then
           Insert \<lparr> rec_id = None, employee_id = employeeId, roster_id = ros_id ros,
             date = today,
             first_check_in_time = Some currentTime, first_check_out_time = None,
             second_check_in_time = None, second_check_out_time = None,
             is_second_session = True,
             previous_session_id = Option.bind existingRecord rec_id,
             status = nextStatus, minutes_late = minutesLate,
             early_departure_minutes = earlyDepartureMinutes,
             break_duration = ros_break_duration ros, expected_hours = expectedHours,
             last_action = Some currentTime, check_in_time = None, check_out_time = None \<rparr>
         else
           Upsert \<lparr> rec_id = Option.bind existingRecord rec_id,
             employee_id = employeeId, roster_id = ros_id ros, date = today,
             first_check_in_time =
               (if nextAction = first_check_in then Some currentTime
                else Option.bind existingRecord first_check_in_time),
             first_check_out_time =
               (if nextAction = first_check_out then Some currentTime
                else Option.bind existingRecord first_check_out_time),
             second_check_in_time =
               (if nextAction = second_check_in then Some currentTime
                else Option.bind existingRecord second_check_in_time),
             second_check_out_time =
               (if nextAction = second_check_out then Some currentTime
                else Option.bind existingRecord second_check_out_time),
             is_second_session = False, previous_session_id = None,
             status = nextStatus, minutes_late = minutesLate,
             early_departure_minutes = earlyDepartureMinutes,
             break_duration = ros_break_duration ros, expected_hours = expectedHours,
             last_action = Some currentTime, check_in_time = None, check_out_time = None \<rparr>)"

text \<open>
  The store's side of a write. An insert appends a row under a fresh identifier. An upsert
  whose object names the identifier of a stored row replaces that row's sent columns and keeps
  the two columns that are not sent; any other upsert is an insert.
\<close>

definition insertRow :: "store \<Rightarrow> attendance \<Rightarrow> attendance \<times> store" where
  "insertRow st d =
     (let r = d\<lparr>rec_id := Some (case rec_id d of None \<Rightarrow> next_id st | Some i \<Rightarrow> i)\<rparr>
      in (r, st\<lparr>attendance_tbl := attendance_tbl st @ [r], next_id := next_id st + 1\<rparr>))"

definition upsertRow :: "store \<Rightarrow> attendance \<Rightarrow> attendance \<times> store" where
  "upsertRow st d =
     (case find (\<lambda>r. rec_id d \<noteq> None \<and> rec_id r = rec_id d) (attendance_tbl st) of
        None \<Rightarrow> insertRow st d
      | Some old \<Rightarrow>
          (let r = d\<lparr>check_in_time := check_in_time old, check_out_time := check_out_time old\<rparr>
           in (r, st\<lparr>attendance_tbl :=
                       map (\<lambda>x. if rec_id x = rec_id d then r else x) (attendance_tbl st)\<rparr>)))"

definition performWrite :: "env \<Rightarrow> store \<Rightarrow> storeWrite \<Rightarrow> attendance fetched \<times> store" where
  "performWrite ev st w =
     (case fault st of
        Throws m \<Rightarrow> (Threw m, st)
      | ErrorResponse m \<Rightarrow> (Failed m, st)
      | Healthy \<Rightarrow>
          (case db_check ev (attendance_tbl st) (case w of Insert d \<Rightarrow> d | Upsert d \<Rightarrow> d) of
             Some message \<Rightarrow> (Failed message, st)
           | None \<Rightarrow>
               (case w of
                  Insert d \<Rightarrow> (case insertRow st d of (r, st') \<Rightarrow> (Got r, st'))
                | Upsert d \<Rightarrow> (case upsertRow st d of (r, st') \<Rightarrow> (Got r, st')))))"

text \<open>Lines 335 to 342 and 422 to 429: the message of a rejected write, classified.\<close>

definition processFailure :: "string \<Rightarrow> failure" where
  "processFailure message =
     (if str_includes message ''valid_check_times'' then
        AttendanceError ''Invalid check-in/out sequence. Please try again.''
      else if str_includes message ''unique_daily_attendance'' then
        AttendanceError ''Attendance record already exists for today.''
      else AttendanceError (''Failed to process attendance: '' @ message))"

text \<open>
  What the recorder returns: the stored row and the presentation fields \<open>action\<close>,
  \<open>employeeName\<close> and \<open>isLate\<close> (\<open>minutesLate > 0\<close>, where \<open>minutesLate\<close> is the
  \<open>minutes_late\<close> that was sent and stored). The other presentation fields echo numbers of
  the row.
\<close>

record scanResult =
  stored :: attendance
  action :: AttendanceAction
  employeeName :: string
  isLate :: bool

text \<open>
  \<open>recordAttendance(employeeId)\<close> at the instant \<open>currentTime\<close>, from the store \<open>st\<close> to
  the result and the store afterwards. The outer \<open>catch\<close> rethrows an
  \<open>AttendanceError\<close> and wraps the message of any other exception in one. An accepted
  write always answers with the written row, so the branch for a missing row
  ("No attendance record was created") is never taken.
\<close>

definition recordAttendance ::
  "env \<Rightarrow> store \<Rightarrow> time \<Rightarrow> string \<Rightarrow> (failure + scanResult) \<times> store" where
  "recordAttendance ev st currentTime employeeId =
     (case single (fault st) (filter (\<lambda>e. emp_id e = employeeId) (employees st)) of
        Threw m \<Rightarrow> (Inl (AttendanceError m), st)
      | Failed _ \<Rightarrow> (Inl (AttendanceError ''Employee not found or invalid employee ID''), st)
      | Got employee \<Rightarrow>
          if emp_status employee \<noteq> ''active'' then
            (Inl (AttendanceError ''Employee is not active in the system''), st)
          else
            (case getEmployeeRoster ev employeeId of
               None \<Rightarrow> (Inl (AttendanceError ''No valid roster found for employee''), st)
             | Some ros \<Rightarrow>
                 if ros_id ros = [] then
                   (Inl (AttendanceError ''No valid roster found for employee''), st)
                 else
                   (case todaysRecord st employeeId currentTime of
                      Threw m \<Rightarrow> (Inl (AttendanceError m), st)
                    | Failed _ \<Rightarrow>
                        (Inl (AttendanceError ''Failed to check existing attendance''), st)
                    | Got existingRecord \<Rightarrow>
                        (case determineAction existingRecord of
                           Inl e \<Rightarrow> (Inl e, st)
                         | Inr (nextAction, nextStatus) \<Rightarrow>
                             (case validateSequence existingRecord nextAction currentTime of
                                Some e \<Rightarrow> (Inl e, st)
                              | None \<Rightarrow>
                                  (case performWrite ev st
                                          (buildWrite ev employeeId ros existingRecord
                                             nextAction nextStatus currentTime) of
                                     (Threw m, st') \<Rightarrow> (Inl (AttendanceError m), st')
                                   | (Failed message, st') \<Rightarrow> (Inl (processFailure message), st')
                                   | (Got processedAttendance, st') \<Rightarrow>
                                       (Inr \<lparr> stored = processedAttendance,
                                              action = nextAction,
                                              employeeName =
                                                first_name employee @ '' '' @ last_name employee,
                                              isLate =
                                                (case minutes_late processedAttendance of
                                                   Some n \<Rightarrow> n > 0
                                                 | None \<Rightarrow> False) \<rparr>,
                                        st')))))))"

text \<open>
  The recorder in its two phases: the queries and the decision, up to the object to be sent
  (\<open>planAttendance\<close>), and the write with the result made of its answer
  (\<open>commitAttendance\<close>). The recorder awaits each query, so between the two phases of one
  call another call can run: \<open>raceScans\<close> is the interleaving of two scans of one employee
  in which both calls read the store before either writes.
\<close>

record scanPlan =
  plan_employee :: employee
  plan_action :: AttendanceAction
  plan_write :: storeWrite

definition planAttendance :: "env \<Rightarrow> store \<Rightarrow> time \<Rightarrow> string \<Rightarrow> failure + scanPlan" where
  "planAttendance ev st currentTime employeeId =
     (case single (fault st) (filter (\<lambda>e. emp_id e = employeeId) (employees st)) of
        Threw m \<Rightarrow> Inl (AttendanceError m)
      | Failed _ \<Rightarrow> Inl (AttendanceError ''Employee not found or invalid employee ID'')
      | Got employee \<Rightarrow>
          if emp_status employee \<noteq> ''active'' then
            Inl (AttendanceError ''Employee is not active in the system'')
          else
            (case getEmployeeRoster ev employeeId of
               None \<Rightarrow> Inl (AttendanceError ''No valid roster found for employee'')
             | Some ros \<Rightarrow>
                 if ros_id ros = [] then
                   Inl (AttendanceError ''No valid roster found for employee'')
                 else
                   (case todaysRecord st employeeId currentTime of
                      Threw m \<Rightarrow> Inl (AttendanceError m)
                    | Failed _ \<Rightarrow> Inl (AttendanceError ''Failed to check existing attendance'')
                    | Got existingRecord \<Rightarrow>
                        (case determineAction existingRecord of
                           Inl e \<Rightarrow> Inl e
                         | Inr (nextAction, nextStatus) \<Rightarrow>
                             (case validateSequence existingRecord nextAction currentTime of
                                Some e \<Rightarrow> Inl e
                              | None \<Rightarrow>
                                  Inr \<lparr> plan_employee = employee, plan_action = nextAction,
                                        plan_write =
                                          buildWrite ev employeeId ros existingRecord
                                            nextAction nextStatus currentTime \<rparr>)))))"

definition commitAttendance :: "env \<Rightarrow> store \<Rightarrow> scanPlan \<Rightarrow> (failure + scanResult) \<times> store" where
  "commitAttendance ev st p =
     (case performWrite ev st (plan_write p) of
        (Threw m, st') \<Rightarrow> (Inl (AttendanceError m), st')
      | (Failed message, st') \<Rightarrow> (Inl (processFailure message), st')
      | (Got processedAttendance, st') \<Rightarrow>
          (Inr \<lparr> stored = processedAttendance,
                 action = plan_action p,
                 employeeName =
                   first_name (plan_employee p) @ '' '' @ last_name (plan_employee p),
                 isLate =
                   (case minutes_late processedAttendance of
                      Some n \<Rightarrow> n > 0
                    | None \<Rightarrow> False) \<rparr>,
           st'))"

definition raceScans ::
  "env \<Rightarrow> store \<Rightarrow> time \<Rightarrow> time \<Rightarrow> string \<Rightarrow>
   ((failure + scanResult) \<times> (failure + scanResult) \<times> store) option" where
  "raceScans ev st t1 t2 employeeId =
     (case (planAttendance ev st t1 employeeId, planAttendance ev st t2 employeeId) of
        (Inr p1, Inr p2) \<Rightarrow>
          (case commitAttendance ev st p1 of
             (r1, st1) \<Rightarrow>
               (case commitAttendance ev st1 p2 of
                  (r2, st2) \<Rightarrow> Some (r1, r2, st2)))
      | _ \<Rightarrow> None)"

text \<open>The object of a write.\<close>

definition payload :: "storeWrite \<Rightarrow> attendance" where
  "payload w = (case w of Insert d \<Rightarrow> d | Upsert d \<Rightarrow> d)"

section \<open>Observations and example data\<close>

text \<open>The four session timestamps of a row, in order.\<close>

definition sessionTimes :: "attendance \<Rightarrow> time option \<times> time option \<times> time option \<times> time option" where
  "sessionTimes r = (first_check_in_time r, first_check_out_time r,
                     second_check_in_time r, second_check_out_time r)"

text \<open>Every row of the table has its primary key.\<close>

definition rows_have_ids :: "store \<Rightarrow> bool" where
  "rows_have_ids st = list_all (\<lambda>r. rec_id r \<noteq> None) (attendance_tbl st)"

text \<open>
  One employee \<open>e1\<close> on a 09:00 to 17:00 roster with 5 minutes of grace, in UTC, and a
  database that accepts every write. Times of day are milliseconds of day 0:
  09:00 is 32400000, a quarter of an hour is 900000.
\<close>

definition ros9to5 :: roster where
  "ros9to5 = \<lparr> ros_id = ''r1'', start_time = ''09:00'', end_time = ''17:00'',
               grace_period = 5, early_departure_threshold = 0, ros_break_duration = 60 \<rparr>"

definition env0 :: env where
  "env0 = \<lparr> tz = fixedZone 0, getEmployeeRoster = (\<lambda>_. Some ros9to5), db_check = (\<lambda>_ _. None) \<rparr>"

definition worker :: "string \<Rightarrow> employee" where
  "worker i = \<lparr> emp_id = i, first_name = ''Ann'', last_name = ''Lee'', emp_status = ''active'' \<rparr>"

definition row ::
  "nat \<Rightarrow> string \<Rightarrow> time option \<Rightarrow> time option \<Rightarrow> time option \<Rightarrow> time option \<Rightarrow> attendance" where
  "row i e t1 t2 t3 t4 =
     blank\<lparr> rec_id := Some i, employee_id := e,
            first_check_in_time := t1, first_check_out_time := t2,
            second_check_in_time := t3, second_check_out_time := t4 \<rparr>"

definition storeOf :: "attendance list \<Rightarrow> store" where
  "storeOf rows = \<lparr> employees = [worker ''e1''], attendance_tbl = rows,
                   next_id = 100, fault = Healthy \<rparr>"

text \<open>Ten active employees; three open first sessions, one of them late; two completed days.\<close>

definition storeTen :: store where
  "storeTen = \<lparr> employees = map worker [''e1'', ''e2'', ''e3'', ''e4'', ''e5'',
                                         ''e6'', ''e7'', ''e8'', ''e9'', ''e10''],
     attendance_tbl =
       [ (row 1 ''e1'' (Some 32400000) None None None)\<lparr>minutes_late := Some 0\<rparr>,
         (row 2 ''e2'' (Some 32400000) None None None)\<lparr>minutes_late := Some 0\<rparr>,
         (row 3 ''e3'' (Some 33600000) None None None)\<lparr>minutes_late := Some 15\<rparr>,
         (row 4 ''e4'' (Some 32400000) (Some 43200000) (Some 46800000) (Some 61200000))
            \<lparr>minutes_late := Some 0\<rparr>,
         (row 5 ''e5'' (Some 32400000) (Some 61200000) None None)\<lparr>minutes_late := Some 0\<rparr> ],
     next_id = 6, fault = Healthy \<rparr>"

text \<open>
  Ten rows of \<open>e1\<close> from earlier days whose \<open>check_in_time\<close> are the ten candidates the
  guard tries from base time 32400000: the offsets accumulate, 0, 1, 3, 6, ... seconds.
\<close>

definition storeCrowded :: store where
  "storeCrowded = storeOf
     (map (\<lambda>(i, t). (row i ''e1'' None None None None)\<lparr>date := - 1, check_in_time := Some t\<rparr>)
        [(1, 32400000), (2, 32401000), (3, 32403000), (4, 32406000), (5, 32410000),
         (6, 32415000), (7, 32421000), (8, 32428000), (9, 32436000), (10, 32445000)])"

text \<open>Two rows of \<open>e1\<close> from an earlier day with the same \<open>check_in_time\<close>.\<close>

definition storeTwice :: store where
  "storeTwice = storeOf
     [(row 1 ''e1'' None None None None)\<lparr>date := - 1, check_in_time := Some 32400000\<rparr>,
      (row 2 ''e1'' None None None None)\<lparr>date := - 1, check_in_time := Some 32400000\<rparr>]"

text \<open>
  The day of \<open>e1\<close> at its four stages: checked in at 09:00, checked out for the break at
  12:00, and (were the second check-in kept in the same row) back at 13:00. \<open>storeLegacy\<close>
  is the morning row with the column \<open>check_in_time\<close> filled as well.
\<close>

definition storeMorning :: store where
  "storeMorning = storeOf [row 1 ''e1'' (Some 32400000) None None None]"

definition storeBreak :: store where
  "storeBreak = storeOf [row 1 ''e1'' (Some 32400000) (Some 43200000) None None]"

definition storeAfternoon :: store where
  "storeAfternoon = storeOf [row 1 ''e1'' (Some 32400000) (Some 43200000) (Some 46800000) None]"

definition storeLegacy :: store where
  "storeLegacy = storeOf [(row 1 ''e1'' (Some 32400000) None None None)
                            \<lparr>check_in_time := Some 32400000\<rparr>]"

text \<open>One scan of \<open>e1\<close> at each stage: 09:00, 12:00, 13:00 and 17:00.\<close>

definition scanFirstIn :: "(failure + scanResult) \<times> store" where
  "scanFirstIn = recordAttendance env0 (storeOf []) 32400000 ''e1''"

definition scanFirstOut :: "(failure + scanResult) \<times> store" where
  "scanFirstOut = recordAttendance env0 storeMorning 43200000 ''e1''"

definition scanSecondIn :: "(failure + scanResult) \<times> store" where
  "scanSecondIn = recordAttendance env0 storeBreak 46800000 ''e1''"

definition scanSecondOut :: "(failure + scanResult) \<times> store" where
  "scanSecondOut = recordAttendance env0 storeAfternoon 61200000 ''e1''"

text \<open>
  Two first check-ins of \<open>e1\<close> that both read the empty store: half a second apart, and at
  the same instant. \<open>scanThenOut\<close> is a scan made half a second after \<open>scanFirstIn\<close>, in
  the store it left; \<open>scanLegacy\<close> is a check-out scanned one second after the check-in of
  \<open>storeLegacy\<close>.
\<close>

definition raceHalfSecond ::
  "((failure + scanResult) \<times> (failure + scanResult) \<times> store) option" where
  "raceHalfSecond = raceScans env0 (storeOf []) 32400000 32400500 ''e1''"

definition raceSameInstant ::
  "((failure + scanResult) \<times> (failure + scanResult) \<times> store) option" where
  "raceSameInstant = raceScans env0 (storeOf []) 32400000 32400000 ''e1''"

definition scanThenOut :: "(failure + scanResult) \<times> store" where
  "scanThenOut = recordAttendance env0 (snd scanFirstIn) 32400500 ''e1''"

definition scanLegacy :: "(failure + scanResult) \<times> store" where
  "scanLegacy = recordAttendance env0 storeLegacy 32401000 ''e1''"

text \<open>
  A database with the constraint the recorder's error messages name: one row for an employee
  and a day.
\<close>

definition envUnique :: env where
  "envUnique = env0\<lparr> db_check :=
     (\<lambda>rows d. if list_ex (\<lambda>r. employee_id r = employee_id d \<and> date r = date d
                                \<and> rec_id r \<noteq> rec_id d) rows
                then Some ''unique_daily_attendance'' else None) \<rparr>"

definition planAgain :: scanPlan where
  "planAgain = projr (planAttendance envUnique (storeOf []) 32400500 ''e1'')"

text \<open>
  The row a scan of \<open>e1\<close> under \<open>env0\<close> leaves when the employee is on time, and what
  the recorder then returns.
\<close>

definition written ::
  "nat \<Rightarrow> time option \<Rightarrow> time option \<Rightarrow> time option \<Rightarrow> time option \<Rightarrow>
   string \<Rightarrow> bool \<Rightarrow> nat option \<Rightarrow> time \<Rightarrow> attendance" where
  "written i t1 t2 t3 t4 s second previous now =
     (row i ''e1'' t1 t2 t3 t4)
       \<lparr> roster_id := ''r1'', is_second_session := second, previous_session_id := previous,
         status := s, minutes_late := Some 0, early_departure_minutes := Some 0,
         break_duration := 60, expected_hours := Some 7, last_action := Some now \<rparr>"

definition outcome :: "attendance \<Rightarrow> AttendanceAction \<Rightarrow> scanResult" where
  "outcome r a = \<lparr> stored = r, action = a, employeeName = ''Ann Lee'', isLate = False \<rparr>"

section \<open>The roster start on the day of a scan\<close>

text \<open>
  The roster start "on the same calendar day": the local time value of \<open>h:m\<close> on the local
  calendar day of the instant \<open>t\<close>, and the instant at which the local clock shows it.
\<close>

definition localStart :: "zone \<Rightarrow> time \<Rightarrow> int \<Rightarrow> int \<Rightarrow> int" where
  "localStart Z t h m = ((t + utcOffset Z t) div msPerDay) * msPerDay + h * 3600000 + m * 60000"

definition rosterStart :: "zone \<Rightarrow> time \<Rightarrow> int \<Rightarrow> int \<Rightarrow> time" where
  "rosterStart Z t h m = localStart Z t h m - localOffset Z (localStart Z t h m)"

text \<open>
  The number written by two decimal digits; what may follow \<open>HH:MM\<close> in a time of day
  (nothing, or a colon and what comes after it, the seconds); and the largest time value of a
  date.
\<close>

definition twoDigits :: "char \<Rightarrow> char \<Rightarrow> int" where
  "twoDigits a b = 10 * (int (of_char a) - 48) + (int (of_char b) - 48)"

definition secondsSuffix :: "string \<Rightarrow> bool" where
  "secondsSuffix rest = (case rest of [] \<Rightarrow> True | x # _ \<Rightarrow> x = CHR '':'')"

definition maxTime :: int where
  "maxTime = 8640000000000000"

text \<open>
  A zone that moves its clocks forward by an hour at 01:00 UTC of day 0, from one hour ahead
  of UTC to two: local times from 02:00 to 03:00 of that day do not exist and are read with
  the offset from before the change.
\<close>

definition zoneSpring :: zone where
  "zoneSpring = \<lparr> utcOffset = (\<lambda>t. if t < 3600000 then 3600000 else 7200000),
                  localOffset = (\<lambda>l. if l < 10800000 then 3600000 else 7200000) \<rparr>"

section \<open>Rounding to a double\<close>

lemma pow2_pos: "0 < pow2 k"
  by (simp add: pow2_def)

lemma pow2_nonpos:
  assumes "k \<le> 0"
  shows "pow2 k = 1 / 2 ^ nat (- k)"
proof -
  have "(2::rat) powi (- (- k)) = 1 / 2 powi (- k)"
    by (rule power_int_minus_divide)
  moreover have "(2::rat) powi (- k) = 2 ^ nat (- k)"
    using assms by (simp add: power_int_def)
  ultimately show ?thesis by (simp add: pow2_def)
qed

lemma pow2_nonneg: "0 \<le> k \<Longrightarrow> pow2 k = 2 ^ nat k"
  by (simp add: pow2_def power_int_def)

lemma pow2_mono: "j \<le> k \<Longrightarrow> pow2 j \<le> pow2 k"
  unfolding pow2_def by (rule power_int_increasing) simp_all

lemma roundHalfEven_int: "roundHalfEven (of_int n) = n"
  by (simp add: roundHalfEven_def)

lemma roundHalfEven_error: "\<bar>of_int (roundHalfEven x) - x\<bar> \<le> 1 / 2"
proof -
  define f where "f = \<lfloor>x\<rfloor>"
  have lo: "of_int f \<le> x" and hi: "x < of_int f + 1"
    unfolding f_def by linarith+
  consider "x - of_int f < 1 / 2" | "1 / 2 < x - of_int f" | "x - of_int f = 1 / 2"
    by linarith
  then show ?thesis
  proof cases
    case 1
    then have "roundHalfEven x = f" by (simp add: roundHalfEven_def f_def)
    with lo 1 show ?thesis by simp
  next
    case 2
    then have "roundHalfEven x = f + 1" by (simp add: roundHalfEven_def f_def)
    with hi 2 show ?thesis by simp
  next
    case 3
    then have "roundHalfEven x = f \<or> roundHalfEven x = f + 1"
      by (simp add: roundHalfEven_def f_def Let_def)
    with 3 show ?thesis by auto
  qed
qed

lemma binade_le:
  assumes "\<bar>x\<bar> < 2 ^ n" and "0 < n"
  shows "binade x \<le> int n - 1"
proof (cases "1 \<le> \<bar>x\<bar>")
  case True
  have "\<lfloor>\<bar>x\<bar>\<rfloor> < 2 ^ nat (int n)"
    using assms by (simp add: floor_less_iff)
  then have "bitlen \<lfloor>\<bar>x\<bar>\<rfloor> \<le> int n"
    by (simp only: bitlen_le_iff_power) simp
  with True show ?thesis by (simp add: binade_def)
next
  case False
  have "0 \<le> bitlen (\<lceil>1 / \<bar>x\<bar>\<rceil> - 1)" by (rule bitlen_nonneg)
  with False assms(2) show ?thesis by (simp add: binade_def)
qed

text \<open>An integer below \<open>2^53\<close> is a double: rounding leaves it as it is.\<close>

lemma fl_exact:
  assumes "x \<noteq> 0" and "\<bar>x\<bar> < 2 ^ 53" and "x = of_int m"
  shows "fl x = Fin x"
proof -
  define E where "E = max (binade x) (- 1022)"
  have "binade x \<le> 52" using binade_le [of x 53] assms(2) by simp
  then have E: "E - 52 \<le> 0" by (simp add: E_def)
  define u where "u = pow2 (E - 52)"
  have u: "u = 1 / 2 ^ nat (52 - E)" using pow2_nonpos [OF E] by (simp add: u_def)
  have "x / u = of_int (m * 2 ^ nat (52 - E))"
    by (simp add: u assms(3))
  then have "roundHalfEven (x / u) = m * 2 ^ nat (52 - E)"
    by (simp only: roundHalfEven_int)
  then have y: "of_int (roundHalfEven (x / u)) * u = x"
    by (simp add: u assms(3))
  have "\<bar>x\<bar> < pow2 1024"
  proof -
    have "(2::rat) ^ 53 \<le> 2 ^ 1024" by (rule power_increasing) simp_all
    with assms(2) show ?thesis by (simp add: pow2_nonneg)
  qed
  with y assms(1) show ?thesis
    by (simp add: fl_def Let_def E_def [symmetric] u_def [symmetric])
qed

lemma fl_int: "\<bar>n\<bar> < 2 ^ 53 \<Longrightarrow> fl (of_int n) = Fin (of_int n)"
proof (cases "n = 0")
  case True
  then show ?thesis by (simp add: fl_def)
next
  case False
  assume "\<bar>n\<bar> < 2 ^ 53"
  then have "\<bar>rat_of_int n\<bar> < 2 ^ 53"
    by (metis of_int_abs of_int_less_numeral_power_cancel_iff)
  with False show ?thesis
    by (intro fl_exact [where m = n]) simp_all
qed

text \<open>
  Milliseconds to whole minutes: the quotient by 60000 is rounded, but by less than the
  distance of a whole number of milliseconds to the next minute, so the floor is the exact one.
\<close>

lemma fl_div_floor:
  assumes "\<bar>a\<bar> < 60000 * 2 ^ 37"
  shows "\<exists>y. fl (of_int a / 60000) = Fin y \<and> \<lfloor>y\<rfloor> = a div 60000"
proof (cases "a = 0")
  case True
  then show ?thesis by (simp add: fl_def)
next
  case False
  define q :: rat where "q = of_int a / 60000"
  define k where "k = a div 60000"
  define r where "r = a mod 60000"
  have a: "a = 60000 * k + r" and r: "0 \<le> r" "r < 60000"
    by (simp_all add: k_def r_def)
  have qk: "q = of_int k + of_int r / 60000"
    by (simp add: q_def a add_divide_distrib)
  have q0: "q \<noteq> 0" using False by (simp add: q_def)
  have "\<bar>rat_of_int a\<bar> < 60000 * 2 ^ 37"
    using assms by (metis (mono_tags) of_int_abs of_int_less_iff of_int_mult of_int_numeral of_int_power)
  then have qb: "\<bar>q\<bar> < 2 ^ 37"
    by (simp add: q_def abs_divide)
  define E where "E = max (binade q) (- 1022)"
  have "binade q \<le> 36" using binade_le [OF qb] by simp
  then have E: "E \<le> 36" by (simp add: E_def)
  define u where "u = pow2 (E - 52)"
  have u0: "0 < u" by (simp add: u_def pow2_pos)
  have "u \<le> pow2 (- 16)" unfolding u_def by (rule pow2_mono) (use E in simp)
  then have u16: "u \<le> 1 / 65536" by (simp add: pow2_nonpos)
  have uinv: "u = 1 / 2 ^ nat (52 - E)"
    using pow2_nonpos [of "E - 52"] E by (simp add: u_def)
  define N where "N = roundHalfEven (q / u)"
  define y where "y = of_int N * u"
  have "\<bar>of_int N - q / u\<bar> \<le> 1 / 2" unfolding N_def by (rule roundHalfEven_error)
  then have "\<bar>of_int N - q / u\<bar> * u \<le> 1 / 2 * u"
    using u0 by (simp add: mult_right_mono)
  moreover have "\<bar>of_int N - q / u\<bar> * u = \<bar>y - q\<bar>"
  proof -
    have "\<bar>of_int N - q / u\<bar> * u = \<bar>(of_int N - q / u) * u\<bar>"
      using u0 by (simp add: abs_mult)
    also have "(of_int N - q / u) * u = y - q"
      using u0 by (simp add: y_def left_diff_distrib)
    finally show ?thesis .
  qed
  ultimately have err: "\<bar>y - q\<bar> \<le> 1 / 131072"
    using u16 by simp
  have "\<bar>y\<bar> < 2 ^ 37 + 1" using err qb by linarith
  moreover have "(2::rat) ^ 37 + 1 \<le> 2 ^ 1024"
  proof -
    have "(2::rat) ^ 38 \<le> 2 ^ 1024" by (rule power_increasing) simp_all
    then show ?thesis by simp
  qed
  ultimately have fin: "\<not> pow2 1024 \<le> \<bar>y\<bar>"
    by (simp add: pow2_nonneg)
  have fl: "fl q = Fin y"
    using q0 fin by (simp add: fl_def Let_def E_def [symmetric] u_def [symmetric]
        N_def [symmetric] y_def [symmetric])
  have "\<lfloor>y\<rfloor> = k"
  proof (cases "r = 0")
    case True
    then have "q / u = of_int (k * 2 ^ nat (52 - E))"
      by (simp add: qk uinv)
    then have "N = k * 2 ^ nat (52 - E)"
      unfolding N_def by (simp only: roundHalfEven_int)
    then have "y = of_int k" by (simp add: y_def uinv)
    then show ?thesis by simp
  next
    case False
    with r have "1 \<le> r" "r \<le> 59999" by simp_all
    then have "1 / 60000 \<le> rat_of_int r / 60000" "rat_of_int r / 60000 \<le> 59999 / 60000"
      by simp_all
    with qk have "of_int k + 1 / 60000 \<le> q" "q \<le> of_int k + 59999 / 60000"
      by simp_all
    with err have "of_int k \<le> y" "y < of_int k + 1" by linarith+
    then show ?thesis by (simp add: floor_unique)
  qed
  with fl show ?thesis by (simp add: q_def k_def)
qed

section \<open>Arithmetic on whole numbers\<close>

lemma toInteger_int: "toInteger (of_int n) = n"
  by (simp add: toInteger_def)

lemma jadd_int:
  "\<bar>a + b\<bar> < 2 ^ 53 \<Longrightarrow> jadd (Fin (of_int a)) (Fin (of_int b)) = Fin (of_int (a + b))"
  using fl_int [of "a + b"] by simp

lemma jsub_int:
  "\<bar>a - b\<bar> < 2 ^ 53 \<Longrightarrow> jsub (Fin (of_int a)) (Fin (of_int b)) = Fin (of_int (a - b))"
  using fl_int [of "a - b"] by (simp add: jsub_def)

lemma jmul_int:
  "\<bar>a * b\<bar> < 2 ^ 53 \<Longrightarrow> jmul (Fin (of_int a)) (Fin (of_int b)) = Fin (of_int (a * b))"
  using fl_int [of "a * b"] by simp

lemma jfloor_jdiv_minutes:
  assumes "\<bar>a\<bar> < 60000 * 2 ^ 37"
  shows "jfloor (jdiv (Fin (of_int a)) (Fin 60000)) = Fin (of_int (a div 60000))"
proof -
  from fl_div_floor [OF assms] obtain y
    where "fl (of_int a / 60000) = Fin y" and "\<lfloor>y\<rfloor> = a div 60000" by blast
  then show ?thesis by simp
qed

lemma timeClip_int:
  "timeClip (Fin (of_int n)) = (if \<bar>n\<bar> \<le> maxTime then Some n else None)"
proof -
  have "(\<bar>rat_of_int n\<bar> \<le> 8640000000000000) = (\<bar>n\<bar> \<le> 8640000000000000)"
    by (metis of_int_abs of_int_le_iff of_int_numeral)
  then show ?thesis by (simp add: timeClip_def toInteger_int maxTime_def)
qed

lemma timeClip_diff:
  "timeClip (Fin (of_int a - of_int b)) = (if \<bar>a - b\<bar> \<le> maxTime then Some (a - b) else None)"
  using timeClip_int [of "a - b"] by simp

lemma newDate_valid: "\<bar>t\<bar> \<le> maxTime \<Longrightarrow> newDate (Some t) = Some t"
  by (simp add: newDate_def timeClip_int)

lemma jmax0_int: "jmax0 (Fin (of_int n)) = Fin (of_int (max 0 n))"
  by (simp add: max_def)

text \<open>The results of the calculators are never below zero.\<close>

lemma jmax0_nonneg: "jmax0 a \<noteq> NegInf \<and> (\<forall>x. jmax0 a = Fin x \<longrightarrow> 0 \<le> x)"
  by (cases a) simp_all

section \<open>\<open>setHours\<close> and the minutes between two instants\<close>

lemma localStart_near:
  assumes "\<bar>t\<bar> \<le> maxTime" and "\<bar>utcOffset Z t\<bar> < msPerDay"
    and "\<bar>h\<bar> \<le> 10000000" and "\<bar>m\<bar> \<le> 10000000"
  shows "\<bar>localStart Z t h m - t\<bar> < 40000000000000"
    and "\<bar>((t + utcOffset Z t) div msPerDay) * msPerDay\<bar> < 8650000000000000"
    and "\<bar>h * 3600000 + m * 60000\<bar> < 40000000000000"
    and "\<bar>localStart Z t h m\<bar> < 8700000000000000"
proof -
  define l where "l = t + utcOffset Z t"
  have "l = (l div 86400000) * 86400000 + l mod 86400000" by simp
  moreover have "0 \<le> l mod 86400000" "l mod 86400000 < 86400000" by simp_all
  ultimately have d: "l - 86400000 < (l div 86400000) * 86400000"
    "(l div 86400000) * 86400000 \<le> l" by linarith+
  have hm: "\<bar>h * 3600000\<bar> \<le> 36000000000000" "\<bar>m * 60000\<bar> \<le> 600000000000"
    using assms(3,4) by (simp_all add: abs_mult)
  show "\<bar>localStart Z t h m - t\<bar> < 40000000000000"
    using d hm assms(1,2) by (simp add: localStart_def l_def [symmetric] msPerDay_def maxTime_def) (simp add: l_def)
  show "\<bar>((t + utcOffset Z t) div msPerDay) * msPerDay\<bar> < 8650000000000000"
    using d assms(1,2) by (simp add: l_def [symmetric] msPerDay_def maxTime_def) (simp add: l_def)
  show "\<bar>h * 3600000 + m * 60000\<bar> < 40000000000000"
    using hm by linarith
  show "\<bar>localStart Z t h m\<bar> < 8700000000000000"
    using d hm assms(1,2) by (simp add: localStart_def l_def [symmetric] msPerDay_def maxTime_def) (simp add: l_def)
qed

lemma makeTime_int:
  assumes "\<bar>toInteger h\<bar> \<le> 10000000" and "\<bar>toInteger m\<bar> \<le> 10000000"
  shows "makeTime (Fin h) (Fin m) = Fin (of_int (toInteger h * 3600000 + toInteger m * 60000))"
proof -
  define H where "H = toInteger h"
  define M where "M = toInteger m"
  have b: "\<bar>H * 3600000\<bar> \<le> 36000000000000" "\<bar>M * 60000\<bar> \<le> 600000000000"
    using assms by (simp_all add: abs_mult H_def M_def)
  have "jmul (Fin (of_int H)) (Fin (of_int 3600000)) = Fin (of_int (H * 3600000))"
    by (rule jmul_int) (use b in simp)
  moreover have "jmul (Fin (of_int M)) (Fin (of_int 60000)) = Fin (of_int (M * 60000))"
    by (rule jmul_int) (use b in simp)
  moreover have "jadd (Fin (of_int (H * 3600000))) (Fin (of_int (M * 60000)))
                   = Fin (of_int (H * 3600000 + M * 60000))"
  proof (rule jadd_int)
    have "\<bar>H * 3600000 + M * 60000\<bar> < 9007199254740992" using b by linarith
    then show "\<bar>H * 3600000 + M * 60000\<bar> < 2 ^ 53" by simp
  qed
  ultimately show ?thesis
    by (simp add: makeTime_def H_def [symmetric] M_def [symmetric])
qed

lemma setHours_int:
  assumes "\<bar>t\<bar> \<le> maxTime" and "\<bar>utcOffset Z t\<bar> < msPerDay"
    and "\<bar>toInteger h\<bar> \<le> 10000000" and "\<bar>toInteger m\<bar> \<le> 10000000"
    and "\<bar>localOffset Z (localStart Z t (toInteger h) (toInteger m))\<bar> < msPerDay"
  shows "setHours Z t (Fin h) (Fin m) =
           (if \<bar>rosterStart Z t (toInteger h) (toInteger m)\<bar> \<le> maxTime
            then Some (rosterStart Z t (toInteger h) (toInteger m)) else None)"
proof -
  define H where "H = toInteger h"
  define M where "M = toInteger m"
  define d where "d = (t + utcOffset Z t) div msPerDay"
  define L where "L = localStart Z t H M"
  have near: "\<bar>d * msPerDay\<bar> < 8650000000000000" "\<bar>L\<bar> < 8700000000000000"
    using localStart_near [OF assms(1,2), of H M] assms(3,4)
    by (simp_all add: H_def M_def d_def L_def)
  have L: "L = d * msPerDay + (H * 3600000 + M * 60000)"
    by (simp add: L_def localStart_def d_def)
  have "jmul (Fin (of_int d)) (Fin (of_int msPerDay)) = Fin (of_int (d * msPerDay))"
    by (rule jmul_int) (use near(1) in simp)
  moreover have "jadd (Fin (of_int (d * msPerDay))) (Fin (of_int (H * 3600000 + M * 60000)))
                   = Fin (of_int L)"
    unfolding L by (rule jadd_int) (use near(2) in \<open>simp add: L\<close>)
  ultimately have md: "makeDate d (Fin (of_int (H * 3600000 + M * 60000))) = Fin (of_int L)"
    by (simp add: makeDate_def)
  have off: "\<bar>localOffset Z L\<bar> < 86400000"
    using assms(5) by (simp add: L_def H_def M_def msPerDay_def)
  have "jsub (Fin (of_int L)) (Fin (of_int (localOffset Z L))) = Fin (of_int (L - localOffset Z L))"
  proof (rule jsub_int)
    have "\<bar>L - localOffset Z L\<bar> < 9007199254740992" using near(2) off by linarith
    then show "\<bar>L - localOffset Z L\<bar> < 2 ^ 53" by simp
  qed
  then show ?thesis
    using md makeTime_int [OF assms(3,4)]
    by (simp add: setHours_def Let_def H_def [symmetric] M_def [symmetric] d_def [symmetric]
        timeClip_diff rosterStart_def L_def [symmetric])
qed

lemma abs_div_minutes: "\<bar>x div 60000\<bar> \<le> \<bar>x :: int\<bar>"
proof -
  define q where "q = x div 60000"
  define r where "r = x mod 60000"
  have "x = 60000 * q + r" "0 \<le> r" "r < 60000" by (simp_all add: q_def r_def)
  then show ?thesis unfolding q_def [symmetric] by linarith
qed

lemma minutes_between:
  assumes "\<bar>a - b\<bar> < 1000000000000000" and "\<bar>g\<bar> \<le> 4503599627370496"
  shows "jmax0 (jsub (jfloor (jdiv (jsub (Fin (of_int a)) (Fin (of_int b))) (Fin 60000)))
                     (Fin (of_int g)))
           = Fin (of_int (max 0 ((a - b) div 60000 - g)))"
proof -
  have "jsub (Fin (of_int a)) (Fin (of_int b)) = Fin (of_int (a - b))"
    by (rule jsub_int) (use assms(1) in simp)
  moreover have "jfloor (jdiv (Fin (of_int (a - b))) (Fin 60000)) = Fin (of_int ((a - b) div 60000))"
    by (rule jfloor_jdiv_minutes) (use assms(1) in simp)
  moreover have "jsub (Fin (of_int ((a - b) div 60000))) (Fin (of_int g))
               = Fin (of_int ((a - b) div 60000 - g))"
  proof (rule jsub_int)
    have "\<bar>(a - b) div 60000 - g\<bar> < 9007199254740992"
      using abs_div_minutes [of "a - b"] assms by linarith
    then show "\<bar>(a - b) div 60000 - g\<bar> < 2 ^ 53" by simp
  qed
  ultimately show ?thesis by (simp only: jmax0_int)
qed

section \<open>Reading a time of day\<close>

lemma fl_numeral: "(numeral k :: int) < 2 ^ 53 \<Longrightarrow> fl (numeral k) = Fin (numeral k)"
  using fl_int [of "numeral k"] by simp

lemma fl_half:
  assumes "\<bar>n\<bar> < 2 ^ 52"
  shows "fl (of_int n / 2) = Fin (of_int n / 2)"
proof (cases "n = 0")
  case True
  then show ?thesis by (simp add: fl_def)
next
  case False
  define x :: rat where "x = of_int n / 2"
  have x0: "x \<noteq> 0" using False by (simp add: x_def)
  have "\<bar>rat_of_int n\<bar> < 2 ^ 52"
    using assms by (metis of_int_abs of_int_less_numeral_power_cancel_iff)
  then have xb: "\<bar>x\<bar> < 2 ^ 51" by (simp add: x_def)
  define E where "E = max (binade x) (- 1022)"
  have "binade x \<le> 50" using binade_le [of x 51] xb by simp
  then have E: "E - 52 \<le> 0" "1 \<le> 52 - E" by (simp_all add: E_def)
  define u where "u = pow2 (E - 52)"
  define k where "k = nat (52 - E) - 1"
  have k: "nat (52 - E) = Suc k" using E by (simp add: k_def)
  have u: "u = 1 / 2 ^ Suc k" using pow2_nonpos [OF E(1)] by (simp add: u_def k)
  have "x / u = of_int (n * 2 ^ k)"
    by (simp add: u x_def)
  then have "roundHalfEven (x / u) = n * 2 ^ k"
    by (simp only: roundHalfEven_int)
  then have y: "of_int (roundHalfEven (x / u)) * u = x"
    by (simp add: u x_def)
  have "\<bar>x\<bar> < pow2 1024"
  proof -
    have "(2::rat) ^ 51 \<le> 2 ^ 1024" by (rule power_increasing) simp_all
    with xb show ?thesis by (simp add: pow2_nonneg)
  qed
  with y x0 show ?thesis
    by (simp add: fl_def Let_def E_def [symmetric] u_def [symmetric] x_def [symmetric])
qed

lemma is_digit_facts:
  assumes "is_digit c"
  shows "\<not> is_ws c" and "c \<noteq> CHR '':''" and "c \<noteq> CHR ''+''" and "c \<noteq> CHR ''-''"
    and "c \<noteq> CHR ''.''" and "c \<noteq> CHR ''x''" and "c \<noteq> CHR ''X''" and "c \<noteq> CHR ''o''"
    and "c \<noteq> CHR ''O''" and "c \<noteq> CHR ''b''" and "c \<noteq> CHR ''B''" and "c \<noteq> CHR ''I''"
    and "digitValue c = Some (of_char c - 48)" and "48 \<le> (of_char c :: nat)"
    and "(of_char c :: nat) \<le> 57"
  using assms by (auto simp add: is_digit_def is_ws_def digitValue_def)

lemma Number_two_digits:
  assumes "is_digit a" and "is_digit b"
  shows "Number [a, b] = Fin (of_int (twoDigits a b))"
proof -
  note A = is_digit_facts [OF assms(1)]
  note B = is_digit_facts [OF assms(2)]
  have v: "valueIn 10 [a, b] = twoDigits a b"
    using A(14) B(14) by (simp add: valueIn_def A(13) B(13) twoDigits_def of_nat_diff)
  have "0 \<le> twoDigits a b" "twoDigits a b \<le> 99"
    using A(14,15) B(14,15) by (simp_all add: twoDigits_def)
  then have "\<bar>twoDigits a b\<bar> < 2 ^ 53" by simp
  then have f: "fl (of_int (twoDigits a b)) = Fin (of_int (twoDigits a b))" by (rule fl_int)
  have "decimalLiteral [a, b] = Some (of_int (twoDigits a b))"
    by (simp add: decimalLiteral_def assms exponentPart_def valueIn_def [of 10 "[]"] v)
  then have "signedLiteral 1 [a, b] = Fin (of_int (twoDigits a b))"
    by (simp add: signedLiteral_def f)
  moreover have "trim [a, b] = [a, b]" by (simp add: trim_def A(1) B(1))
  moreover have "radixOf [a, b] = None" by (simp add: radixOf_def B)
  ultimately show ?thesis by (simp add: Number_def A)
qed

lemma split_on_HHMM:
  assumes "a \<noteq> CHR '':''" and "b \<noteq> CHR '':''" and "c \<noteq> CHR '':''" and "d \<noteq> CHR '':''"
    and "secondsSuffix rest"
  shows "\<exists>more. split_on CHR '':'' (a # b # CHR '':'' # c # d # rest) = [a, b] # [c, d] # more"
proof (cases rest)
  case Nil
  then show ?thesis using assms by simp
next
  case (Cons x r)
  then have "rest = CHR '':'' # r" using assms(5) by (simp add: secondsSuffix_def)
  then show ?thesis using assms by simp
qed

lemma hoursMinutes_HHMM:
  assumes "is_digit a" and "is_digit b" and "is_digit c" and "is_digit d"
    and "secondsSuffix rest"
  shows "hoursMinutes (a # b # CHR '':'' # c # d # rest)
           = (Fin (of_int (twoDigits a b)), Fin (of_int (twoDigits c d)))"
proof -
  from split_on_HHMM [OF is_digit_facts(2) [OF assms(1)] is_digit_facts(2) [OF assms(2)]
      is_digit_facts(2) [OF assms(3)] is_digit_facts(2) [OF assms(4)] assms(5)]
  obtain more where "split_on CHR '':'' (a # b # CHR '':'' # c # d # rest) = [a, b] # [c, d] # more"
    by blast
  then show ?thesis
    by (simp add: hoursMinutes_def Number_two_digits assms)
qed

lemma twoDigits_bounds:
  assumes "is_digit a" and "is_digit b"
  shows "0 \<le> twoDigits a b" and "twoDigits a b \<le> 99"
  using is_digit_facts(14,15) [OF assms(1)] is_digit_facts(14,15) [OF assms(2)]
  by (simp_all add: twoDigits_def)

section \<open>The calculators on a parsed time of day\<close>

lemma near_start:
  assumes "\<bar>t\<bar> \<le> maxTime" and "\<bar>utcOffset Z t\<bar> < msPerDay"
    and "\<bar>h\<bar> \<le> 10000000" and "\<bar>m\<bar> \<le> 10000000"
    and "\<bar>localOffset Z (localStart Z t h m)\<bar> < msPerDay"
  shows "\<bar>t - rosterStart Z t h m\<bar> < 1000000000000000"
    and "\<bar>rosterStart Z t h m - t\<bar> < 1000000000000000"
  using localStart_near(1) [OF assms(1-4)] assms(5)
  by (simp_all add: rosterStart_def msPerDay_def)

lemma calculateLateness_parsed:
  assumes "hoursMinutes s = (Fin h, Fin m)"
    and "\<bar>toInteger h\<bar> \<le> 10000000" and "\<bar>toInteger m\<bar> \<le> 10000000"
    and "\<bar>t\<bar> \<le> maxTime" and "\<bar>utcOffset Z t\<bar> < msPerDay"
    and "\<bar>localOffset Z (localStart Z t (toInteger h) (toInteger m))\<bar> < msPerDay"
    and "\<bar>g\<bar> \<le> 2 ^ 52"
  shows "calculateLateness Z (Some t) s g =
           (if \<bar>rosterStart Z t (toInteger h) (toInteger m)\<bar> \<le> maxTime
            then Fin (of_int (max 0 ((t - rosterStart Z t (toInteger h) (toInteger m)) div 60000 - g)))
            else NaN)"
proof -
  have g: "\<bar>g\<bar> \<le> 4503599627370496" using assms(7) by simp
  note sh = setHours_int [OF assms(4,5,2,3,6)]
  note mb = minutes_between [OF near_start(1) [OF assms(4,5,2,3,6)] g]
  show ?thesis
    by (simp add: calculateLateness_def assms(1) newDate_valid [OF assms(4)] sh mb
        del: of_int_diff)
qed

lemma calculateEarlyDeparture_parsed:
  assumes "hoursMinutes s = (Fin h, Fin m)"
    and "\<bar>toInteger h\<bar> \<le> 10000000" and "\<bar>toInteger m\<bar> \<le> 10000000"
    and "\<bar>t\<bar> \<le> maxTime" and "\<bar>utcOffset Z t\<bar> < msPerDay"
    and "\<bar>localOffset Z (localStart Z t (toInteger h) (toInteger m))\<bar> < msPerDay"
    and "\<bar>g\<bar> \<le> 2 ^ 52"
  shows "calculateEarlyDeparture Z (Some t) s g =
           (if \<bar>rosterStart Z t (toInteger h) (toInteger m)\<bar> \<le> maxTime
            then Fin (of_int (max 0 ((rosterStart Z t (toInteger h) (toInteger m) - t) div 60000 - g)))
            else NaN)"
proof -
  have g: "\<bar>g\<bar> \<le> 4503599627370496" using assms(7) by simp
  note sh = setHours_int [OF assms(4,5,2,3,6)]
  note mb = minutes_between [OF near_start(2) [OF assms(4,5,2,3,6)] g]
  show ?thesis
    by (simp add: calculateEarlyDeparture_def assms(1) newDate_valid [OF assms(4)] sh mb
        del: of_int_diff)
qed

lemma makeTime_not_finite:
  "(\<forall>h m. (a, b) \<noteq> (Fin h, Fin m)) \<Longrightarrow> makeTime a b = NaN"
  by (cases a; cases b) (simp_all add: makeTime_def)

lemma calculateLateness_unparsed:
  assumes "\<forall>h m. hoursMinutes s \<noteq> (Fin h, Fin m)"
  shows "calculateLateness Z ct s g = NaN"
proof -
  obtain a b where ab: "hoursMinutes s = (a, b)" by (cases "hoursMinutes s")
  with assms have "makeTime a b = NaN" by (intro makeTime_not_finite) simp
  then have "setHours Z t a b = None" for t
    by (simp add: setHours_def makeDate_def)
  then show ?thesis
    by (simp add: calculateLateness_def ab split: option.splits)
qed

lemma calculateLateness_invalid_date: "calculateLateness Z None s g = NaN"
  by (simp add: calculateLateness_def newDate_def split: prod.splits)

lemma calculateLateness_nonneg:
  "calculateLateness Z ct s g \<noteq> NegInf \<and> (\<forall>x. calculateLateness Z ct s g = Fin x \<longrightarrow> 0 \<le> x)"
  using jmax0_nonneg
  by (simp add: calculateLateness_def Let_def split: prod.splits option.splits)

lemma fl_numeral_half:
  "(numeral k :: int) < 2 ^ 52 \<Longrightarrow> fl (numeral k / 2) = Fin (numeral k / 2)"
  using fl_half [of "numeral k"] by simp

section \<open>Lateness in a zone of fixed offset\<close>

text \<open>
  Where the offset never changes, the roster start is a time of day and lateness compares the
  local time of day of the scan with it.
\<close>

lemma rosterStart_fixed:
  "t - rosterStart (fixedZone z) t h m = (t + z) mod msPerDay - (h * 3600000 + m * 60000)"
proof -
  have "(t + z) mod msPerDay = (t + z) - ((t + z) div msPerDay) * msPerDay"
    by (simp add: minus_div_mult_eq_mod)
  then show ?thesis
    by (simp add: rosterStart_def localStart_def fixedZone_def)
qed

lemma rosterStart_fixed_range:
  assumes "\<bar>t\<bar> \<le> 8000000000000000" and "\<bar>z\<bar> < msPerDay"
    and "\<bar>h\<bar> \<le> 99" and "\<bar>m\<bar> \<le> 99"
  shows "\<bar>rosterStart (fixedZone z) t h m\<bar> \<le> maxTime"
proof -
  have "\<bar>t\<bar> \<le> maxTime" using assms(1) by (simp add: maxTime_def)
  moreover have "\<bar>utcOffset (fixedZone z) t\<bar> < msPerDay" using assms(2) by (simp add: fixedZone_def)
  moreover have "\<bar>h\<bar> \<le> 10000000" "\<bar>m\<bar> \<le> 10000000" using assms(3,4) by simp_all
  ultimately have "\<bar>localStart (fixedZone z) t h m - t\<bar> < 40000000000000"
    by (rule localStart_near(1))
  then show ?thesis
    using assms(1,2) by (simp add: rosterStart_def fixedZone_def maxTime_def msPerDay_def)
qed

lemma calculateLateness_fixed:
  assumes "hoursMinutes s = (Fin (of_int h), Fin (of_int m))"
    and "\<bar>h\<bar> \<le> 99" and "\<bar>m\<bar> \<le> 99"
    and "\<bar>t\<bar> \<le> 8000000000000000" and "\<bar>z\<bar> < msPerDay" and "\<bar>g\<bar> \<le> 2 ^ 52"
  shows "calculateLateness (fixedZone z) (Some t) s g =
           Fin (of_int (max 0 (((t + z) mod msPerDay - (h * 3600000 + m * 60000)) div 60000 - g)))"
proof -
  have "calculateLateness (fixedZone z) (Some t) s g =
          (if \<bar>rosterStart (fixedZone z) t (toInteger (of_int h)) (toInteger (of_int m))\<bar> \<le> maxTime
           then Fin (of_int (max 0 ((t - rosterStart (fixedZone z) t (toInteger (of_int h))
                                           (toInteger (of_int m))) div 60000 - g)))
           else NaN)"
    using assms by (intro calculateLateness_parsed)
      (simp_all add: toInteger_int fixedZone_def maxTime_def)
  then show ?thesis
    using rosterStart_fixed_range [OF assms(4,5,2,3)]
    by (simp add: toInteger_int rosterStart_fixed del: of_int_diff)
qed

lemma calculateEarlyDeparture_fixed:
  assumes "hoursMinutes s = (Fin (of_int h), Fin (of_int m))"
    and "\<bar>h\<bar> \<le> 99" and "\<bar>m\<bar> \<le> 99"
    and "\<bar>t\<bar> \<le> 8000000000000000" and "\<bar>z\<bar> < msPerDay" and "\<bar>g\<bar> \<le> 2 ^ 52"
  shows "calculateEarlyDeparture (fixedZone z) (Some t) s g =
           Fin (of_int (max 0 (((h * 3600000 + m * 60000) - (t + z) mod msPerDay) div 60000 - g)))"
proof -
  have "calculateEarlyDeparture (fixedZone z) (Some t) s g =
          (if \<bar>rosterStart (fixedZone z) t (toInteger (of_int h)) (toInteger (of_int m))\<bar> \<le> maxTime
           then Fin (of_int (max 0 ((rosterStart (fixedZone z) t (toInteger (of_int h))
                                       (toInteger (of_int m)) - t) div 60000 - g)))
           else NaN)"
    using assms by (intro calculateEarlyDeparture_parsed)
      (simp_all add: toInteger_int fixedZone_def maxTime_def)
  moreover have "rosterStart (fixedZone z) t h m - t
                   = (h * 3600000 + m * 60000) - (t + z) mod msPerDay"
    using rosterStart_fixed [of t z h m] by linarith
  ultimately show ?thesis
    using rosterStart_fixed_range [OF assms(4,5,2,3)]
    by (simp add: toInteger_int del: of_int_diff)
qed

text \<open>The 09:00 to 17:00 roster of the examples, in UTC.\<close>

lemma hoursMinutes_0900: "hoursMinutes ''09:00'' = (Fin 9, Fin 0)"
  using hoursMinutes_HHMM [of "CHR ''0''" "CHR ''9''" "CHR ''0''" "CHR ''0''" "[]"]
  by (simp add: is_digit_def secondsSuffix_def twoDigits_def)

lemma hoursMinutes_1700: "hoursMinutes ''17:00'' = (Fin 17, Fin 0)"
  using hoursMinutes_HHMM [of "CHR ''1''" "CHR ''7''" "CHR ''0''" "CHR ''0''" "[]"]
  by (simp add: is_digit_def secondsSuffix_def twoDigits_def)

lemma lateness_9to5:
  "\<bar>t\<bar> \<le> 8000000000000000 \<Longrightarrow>
   calculateLateness (fixedZone 0) (Some t) ''09:00'' 5
     = Fin (of_int (max 0 ((t mod 86400000 - 32400000) div 60000 - 5)))"
  using calculateLateness_fixed [of "''09:00''" 9 0 t 0 5]
  by (simp add: hoursMinutes_0900 msPerDay_def)

lemma earlyDeparture_9to5:
  "\<bar>t\<bar> \<le> 8000000000000000 \<Longrightarrow>
   calculateEarlyDeparture (fixedZone 0) (Some t) ''17:00'' 0
     = Fin (of_int (max 0 ((61200000 - t mod 86400000) div 60000)))"
  using calculateEarlyDeparture_fixed [of "''17:00''" 17 0 t 0 0]
  by (simp add: hoursMinutes_1700 msPerDay_def)

lemma expectedHours_9to5: "calculateExpectedHours ''09:00'' ''17:00'' 60 = Fin 7"
  by (simp add: calculateExpectedHours_def hoursMinutes_0900 hoursMinutes_1700 jsub_def
      fl_numeral)

section \<open>Lateness\<close>

lemmas number_defs = Number_def trim_def is_ws_def radixOf_def signedLiteral_def
  decimalLiteral_def exponentPart_def is_digit_def valueIn_def digitValue_def digitsIn_def
  Let_def

lemma hoursMinutes_spellings:
  "hoursMinutes '' 9:30.5'' = (Fin 9, Fin (61 / 2))"
  "hoursMinutes ''abc'' = (NaN, NaN)"
  by (simp_all add: hoursMinutes_def number_defs fl_numeral fl_numeral_half)

lemma toInteger_half: "toInteger (61 / 2) = 30"
proof -
  have "\<lfloor>(61::rat) / 2\<rfloor> = 30" by (rule floor_unique) simp_all
  then show ?thesis by (simp add: toInteger_def)
qed

lemma lateness_examples:
  assumes "\<bar>z\<bar> < msPerDay" and "\<bar>day\<bar> \<le> 90000000"
  shows "calculateLateness (fixedZone z) (Some (day * msPerDay + 33000000 - z)) ''09:00'' 5 = Fin 5"
    and "calculateLateness (fixedZone z) (Some (day * msPerDay + 32100000 - z)) ''09:00'' 5 = Fin 0"
proof -
  have d: "\<bar>day * 86400000\<bar> \<le> 7776000000000000"
    using assms(2) by (simp add: abs_mult)
  have b: "\<bar>day * msPerDay + 33000000 - z\<bar> \<le> 8000000000000000"
    "\<bar>day * msPerDay + 32100000 - z\<bar> \<le> 8000000000000000"
    using d assms(1) by (simp_all add: msPerDay_def)
  show "calculateLateness (fixedZone z) (Some (day * msPerDay + 33000000 - z)) ''09:00'' 5 = Fin 5"
    using calculateLateness_fixed [of "''09:00''" 9 0 "day * msPerDay + 33000000 - z" z 5]
      b(1) assms(1)
    by (simp add: hoursMinutes_0900) (simp add: msPerDay_def)
  show "calculateLateness (fixedZone z) (Some (day * msPerDay + 32100000 - z)) ''09:00'' 5 = Fin 0"
    using calculateLateness_fixed [of "''09:00''" 9 0 "day * msPerDay + 32100000 - z" z 5]
      b(2) assms(1)
    by (simp add: hoursMinutes_0900) (simp add: msPerDay_def)
qed

text \<open>
  C8. \<open>calculateLateness\<close> returns the whole minutes from the roster start on the same
  calendar day to the current time, less the grace period, floored at 0.

  The roster start is read from the string: for every start time written \<open>HH:MM\<close> or
  \<open>HH:MM:SS\<close>, in every time zone and on every date, the result is
  \<open>max(0, floor((currentTime - start) / 60000) - gracePeriod)\<close>, where \<open>start\<close> is the
  instant at which the local clock shows \<open>HH:MM\<close> on the local calendar day of the current
  time (on a day on which the clocks change, the minutes counted are those that passed). The
  same holds for any other spelling that \<open>Number\<close> reads as two finite numbers, with their
  integer parts as hour and minute. The result is NaN, not a number of minutes, when a
  component of the start time is not a finite number, when the current time is an invalid date,
  or when the start falls outside the range of dates. It is never negative. In particular, at
  09:10 against "09:00" with 5 minutes of grace it is 5, and at 08:55 it is 0, on every day and
  in every zone of fixed offset.

  Dates are within the range of \<open>Date\<close>, offsets from UTC are of less than a day, and the
  grace period is a whole number of minutes of at most \<open>2^52\<close>.
\<close>

theorem calculateLateness_formula:
  "(is_digit a \<and> is_digit b \<and> is_digit c \<and> is_digit d \<and> secondsSuffix rest \<and>
    \<bar>t\<bar> \<le> maxTime \<and> \<bar>utcOffset Z t\<bar> < msPerDay \<and>
    \<bar>localOffset Z (localStart Z t (twoDigits a b) (twoDigits c d))\<bar> < msPerDay \<and>
    \<bar>g\<bar> \<le> 2 ^ 52 \<longrightarrow>
    calculateLateness Z (Some t) (a # b # CHR '':'' # c # d # rest) g =
      (if \<bar>rosterStart Z t (twoDigits a b) (twoDigits c d)\<bar> \<le> maxTime
       then Fin (of_int (max 0 ((t - rosterStart Z t (twoDigits a b) (twoDigits c d)) div 60000 - g)))
       else NaN))
   \<and> (hoursMinutes s = (Fin h, Fin m) \<and>
      \<bar>toInteger h\<bar> \<le> 10000000 \<and> \<bar>toInteger m\<bar> \<le> 10000000 \<and>
      \<bar>t\<bar> \<le> maxTime \<and> \<bar>utcOffset Z t\<bar> < msPerDay \<and>
      \<bar>localOffset Z (localStart Z t (toInteger h) (toInteger m))\<bar> < msPerDay \<and>
      \<bar>g\<bar> \<le> 2 ^ 52 \<longrightarrow>
      calculateLateness Z (Some t) s g =
        (if \<bar>rosterStart Z t (toInteger h) (toInteger m)\<bar> \<le> maxTime
         then Fin (of_int (max 0 ((t - rosterStart Z t (toInteger h) (toInteger m)) div 60000 - g)))
         else NaN))
   \<and> ((\<forall>x y. hoursMinutes s \<noteq> (Fin x, Fin y)) \<longrightarrow> calculateLateness Z currentTime s g = NaN)
   \<and> calculateLateness Z None s g = NaN
   \<and> calculateLateness Z currentTime s g \<noteq> NegInf
   \<and> (\<forall>x. calculateLateness Z currentTime s g = Fin x \<longrightarrow> 0 \<le> x)
   \<and> (\<bar>z\<bar> < msPerDay \<and> \<bar>day\<bar> \<le> 90000000 \<longrightarrow>
        calculateLateness (fixedZone z) (Some (day * msPerDay + 33000000 - z)) ''09:00'' 5 = Fin 5 \<and>
        calculateLateness (fixedZone z) (Some (day * msPerDay + 32100000 - z)) ''09:00'' 5 = Fin 0)"
proof -
  have "calculateLateness Z (Some t) (a # b # CHR '':'' # c # d # rest) g =
      (if \<bar>rosterStart Z t (twoDigits a b) (twoDigits c d)\<bar> \<le> maxTime
       then Fin (of_int (max 0 ((t - rosterStart Z t (twoDigits a b) (twoDigits c d)) div 60000 - g)))
       else NaN)"
    if dig: "is_digit a" "is_digit b" "is_digit c" "is_digit d" "secondsSuffix rest"
      and rng: "\<bar>t\<bar> \<le> maxTime" "\<bar>utcOffset Z t\<bar> < msPerDay"
        "\<bar>localOffset Z (localStart Z t (twoDigits a b) (twoDigits c d))\<bar> < msPerDay"
        "\<bar>g\<bar> \<le> 2 ^ 52"
  proof -
    have hm: "\<bar>twoDigits a b\<bar> \<le> 10000000" "\<bar>twoDigits c d\<bar> \<le> 10000000"
      using twoDigits_bounds [OF dig(1,2)] twoDigits_bounds [OF dig(3,4)] by simp_all
    show ?thesis
      using calculateLateness_parsed [OF hoursMinutes_HHMM [OF dig], of t Z g] hm rng
      by (simp add: toInteger_int del: of_int_diff)
  qed
  moreover note calculateLateness_parsed [of s h m t Z g]
    calculateLateness_unparsed [of s Z currentTime g]
    calculateLateness_invalid_date [of Z s g]
    calculateLateness_nonneg [of Z currentTime s g]
    lateness_examples [of z day]
  ultimately show ?thesis by blast
qed

theorem calculateLateness_formula_witness:
  "calculateLateness zoneSpring (Some 7200000) ''01:30'' 5 = Fin 85
   \<and> calculateLateness (fixedZone 0) (Some 34800000) '' 9:30.5'' 5 = Fin 5
   \<and> calculateLateness zoneSpring (Some 7200000) ''abc'' 5 = NaN
   \<and> calculateLateness (fixedZone 3600000) (Some (19000 * msPerDay + 33000000 - 3600000))
         ''09:00'' 5 = Fin 5
   \<and> calculateLateness (fixedZone 3600000) (Some (19000 * msPerDay + 32100000 - 3600000))
         ''09:00'' 5 = Fin 0"
  using calculateLateness_formula [where a = "CHR ''0''" and b = "CHR ''1''" and c = "CHR ''3''"
      and d = "CHR ''0''" and rest = "[]" and t = 7200000 and Z = zoneSpring and g = 5
      and s = "''abc''" and currentTime = "Some 7200000" and z = 3600000 and day = 19000]
    calculateLateness_formula [where a = "CHR ''0''" and b = "CHR ''9''" and c = "CHR ''0''"
      and d = "CHR ''0''" and rest = "[]" and s = "'' 9:30.5''" and h = 9 and m = "61 / 2"
      and t = 34800000 and Z = "fixedZone 0" and g = 5 and currentTime = None
      and z = 0 and day = 0]
  by (simp add: hoursMinutes_spellings is_digit_def secondsSuffix_def twoDigits_def
      zoneSpring_def fixedZone_def localStart_def rosterStart_def maxTime_def msPerDay_def
      toInteger_half toInteger_int [of 9, simplified])

section \<open>Evaluation rules\<close>

lemmas ex_defs = env0_def ros9to5_def worker_def row_def storeOf_def blank_def

lemmas rec_defs = recordAttendance_def single_def maybeSingle_def todaysRecord_def isoDate_def
  msPerDay_def determineAction_def validateSequence_def buildWrite_def performWrite_def
  insertRow_def upsertRow_def lateness_9to5 earlyDeparture_9to5 expectedHours_9to5
  calculateLateness_invalid_date jsonInt_def jsonReal_def Let_def

lemmas guard_defs = generateUniqueTimestamp_def generateLoop.simps lastRecordOfDay_def
  floorTime_def probe_def collisions_def maybeSingle_def isoDate_def msPerDay_def Let_def

section \<open>Actual hours\<close>

lemma calculateActualHours_nonneg: "0 \<le> calculateActualHours record now b"
  by (simp add: calculateActualHours_def Let_def split: option.splits)

lemma calculateActualHours_closed_first:
  "first_check_in_time r \<noteq> None \<Longrightarrow> first_check_out_time r \<noteq> None \<Longrightarrow>
   calculateActualHours (Some r) now b = actualHours_spec r now b"
  by (auto simp add: calculateActualHours_def actualHours_spec_def Let_def split: option.splits)

text \<open>
  C2. \<open>calculateActualHours\<close> is to add (now - checkin) for an open session, also for an
  open first session. For a record checked in at 09:00 and not yet checked out, at 10:00 and
  with no break, the function returns 0 where the specified sum is 1 hour: the first session
  has no branch for a missing check-out, the second session has one.
\<close>

theorem calculateActualHours_open_first_session:
  "calculateActualHours (Some (row 1 ''e1'' (Some 32400000) None None None)) 36000000 0 = 0
   \<and> actualHours_spec (row 1 ''e1'' (Some 32400000) None None None) 36000000 0 = 1"
  by (simp add: calculateActualHours_def actualHours_spec_def row_def blank_def)

section \<open>The next action\<close>

lemma nextActionOf_table:
  "nextActionOf None = first_check_in"
  "nextActionOf (Some (row i e None None None None)) = first_check_in"
  "nextActionOf (Some (row i e (Some a) None None None)) = first_check_out"
  "nextActionOf (Some (row i e (Some a) (Some b) None None)) = second_check_in"
  "nextActionOf (Some (row i e (Some a) (Some b) (Some c) None)) = second_check_out"
  "nextActionOf (Some (row i e (Some a) (Some b) (Some c) (Some d))) = completed"
  by (simp_all add: nextActionOf_def row_def blank_def)

lemma nextActionOf_nullness:
  "(first_check_in_time r = None) = (first_check_in_time r' = None) \<Longrightarrow>
   (first_check_out_time r = None) = (first_check_out_time r' = None) \<Longrightarrow>
   (second_check_in_time r = None) = (second_check_in_time r' = None) \<Longrightarrow>
   (second_check_out_time r = None) = (second_check_out_time r' = None) \<Longrightarrow>
   nextActionOf (Some r) = nextActionOf (Some r')"
  by (simp add: nextActionOf_def)

text \<open>
  With a first check-in on record the recorder and \<open>getNextAttendanceAction\<close> choose the
  same action, and the recorder's error stands where the other returns \<open>completed\<close>.
\<close>

lemma determineAction_agrees:
  "first_check_in_time r \<noteq> None \<Longrightarrow>
   determineAction (Some r) =
     (case nextActionOf (Some r) of
        first_check_in \<Rightarrow> Inr (first_check_in, ''CHECKED_IN'')
      | first_check_out \<Rightarrow> Inr (first_check_out, ''ON_BREAK'')
      | second_check_in \<Rightarrow> Inr (second_check_in, ''CHECKED_IN'')
      | second_check_out \<Rightarrow> Inr (second_check_out, ''COMPLETED'')
      | completed \<Rightarrow> Inl (AttendanceError ''All attendance actions completed for today''))"
  by (auto simp add: determineAction_def nextActionOf_def)

lemma determineAction_no_record: "determineAction None = Inr (first_check_in, ''CHECKED_IN'')"
  by (simp add: determineAction_def)

text \<open>
  C3. A record whose four timestamps are all null is to yield \<open>first_check_in\<close>.
  \<open>getNextAttendanceAction\<close> does; the recorder, given today's row of the employee with no
  timestamp set, fails with "All attendance actions completed for today" and writes nothing.
\<close>

theorem recordAttendance_all_null_row:
  "recordAttendance env0 (storeOf [row 1 ''e1'' None None None None]) 32400000 ''e1''
     = (Inl (AttendanceError ''All attendance actions completed for today''),
        storeOf [row 1 ''e1'' None None None None])
   \<and> getNextAttendanceAction (storeOf [row 1 ''e1'' None None None None]) 32400000 ''e1''
     = first_check_in"
  by (simp add: rec_defs ex_defs getNextAttendanceAction_def nextActionOf_def)

text \<open>
  C10. Whenever the lookup of today's record throws or answers an error,
  \<open>getNextAttendanceAction\<close> returns \<open>first_check_in\<close>, the answer it gives for an employee
  with no row at all.
\<close>

theorem getNextAttendanceAction_failure_is_first_check_in:
  assumes "(\<exists>m. todaysRecord st employeeId now = Threw m)
           \<or> (\<exists>m. todaysRecord st employeeId now = Failed m)"
  shows "getNextAttendanceAction st now employeeId = first_check_in
         \<and> getNextAttendanceAction st now employeeId
             = getNextAttendanceAction (st\<lparr>attendance_tbl := [], fault := Healthy\<rparr>)
                 now employeeId"
  using assms
  by (auto simp add: getNextAttendanceAction_def todaysRecord_def maybeSingle_def nextActionOf_def)

text \<open>
  An employee whose day is complete: with the store answering errors the next action is
  \<open>first_check_in\<close>, with the store healthy it is \<open>completed\<close>.
\<close>

theorem getNextAttendanceAction_failure_witness:
  "todaysRecord ((storeOf [row 1 ''e1'' (Some 1) (Some 2) (Some 3) (Some 4)])
                   \<lparr>fault := ErrorResponse ''timeout''\<rparr>) ''e1'' 5 = Failed ''timeout''
   \<and> getNextAttendanceAction ((storeOf [row 1 ''e1'' (Some 1) (Some 2) (Some 3) (Some 4)])
                                \<lparr>fault := ErrorResponse ''timeout''\<rparr>) 5 ''e1'' = first_check_in
   \<and> getNextAttendanceAction (storeOf [row 1 ''e1'' (Some 1) (Some 2) (Some 3) (Some 4)]) 5 ''e1''
       = completed"
  using getNextAttendanceAction_failure_is_first_check_in
          [of "(storeOf [row 1 ''e1'' (Some 1) (Some 2) (Some 3) (Some 4)])
                 \<lparr>fault := ErrorResponse ''timeout''\<rparr>" "''e1''" 5]
  by (simp add: todaysRecord_def maybeSingle_def getNextAttendanceAction_def nextActionOf_def
        isoDate_def msPerDay_def ex_defs)

section \<open>Today's summary\<close>

lemma countRecord_fields:
  "currentlyPresent (countRecord c r) = currentlyPresent c +
     (if (first_check_in_time r \<noteq> None \<and> first_check_out_time r = None)
         \<or> (second_check_in_time r \<noteq> None \<and> second_check_out_time r = None) then 1 else 0)"
  "lateButPresent (countRecord c r) = lateButPresent c +
     (if first_check_in_time r \<noteq> None \<and> first_check_out_time r = None
         \<and> (case minutes_late r of Some n \<Rightarrow> n > 0 | None \<Rightarrow> False) then 1 else 0)"
  "checkedOut (countRecord c r) = checkedOut c +
     (if \<not> (first_check_in_time r \<noteq> None \<and> first_check_out_time r = None)
         \<and> \<not> (second_check_in_time r \<noteq> None \<and> second_check_out_time r = None)
         \<and> (second_check_out_time r \<noteq> None
              \<or> (first_check_out_time r \<noteq> None \<and> second_check_in_time r = None)) then 1 else 0)"
  by (simp_all add: countRecord_def Let_def)

lemma foldl_countRecord_present:
  "currentlyPresent (foldl countRecord c rs) = currentlyPresent c +
     int (length (filter (\<lambda>r. (first_check_in_time r \<noteq> None \<and> first_check_out_time r = None)
         \<or> (second_check_in_time r \<noteq> None \<and> second_check_out_time r = None)) rs))"
  by (induction rs arbitrary: c) (simp_all add: countRecord_fields)

lemma foldl_countRecord_late:
  "lateButPresent (foldl countRecord c rs) = lateButPresent c +
     int (length (filter (\<lambda>r. first_check_in_time r \<noteq> None \<and> first_check_out_time r = None
         \<and> (case minutes_late r of Some n \<Rightarrow> n > 0 | None \<Rightarrow> False)) rs))"
  by (induction rs arbitrary: c) (simp_all add: countRecord_fields)

lemma foldl_countRecord_out:
  "checkedOut (foldl countRecord c rs) = checkedOut c +
     int (length (filter (\<lambda>r. \<not> (first_check_in_time r \<noteq> None \<and> first_check_out_time r = None)
         \<and> \<not> (second_check_in_time r \<noteq> None \<and> second_check_out_time r = None)
         \<and> (second_check_out_time r \<noteq> None
              \<or> (first_check_out_time r \<noteq> None \<and> second_check_in_time r = None))) rs))"
  by (induction rs arbitrary: c) (simp_all add: countRecord_fields)

text \<open>
  C9, as stated, fails. A row with both sessions open (first check-in and second check-in set,
  neither check-out set) and 15 minutes late is counted as late-but-present by
  \<open>getTodayAttendanceSummary\<close>, which tests the first session first; under the stated
  precedence the second session comes first and the row is not split, so the late count is 0.
  And a row of today without any timestamp is put in no bucket at all.
\<close>

theorem summary_precedence_counterexample:
  "lateButPresent (presenceBreakdown (getTodayAttendanceSummary
      (storeOf [(row 1 ''e1'' (Some 32400000) None (Some 46800000) None)
                  \<lparr>minutes_late := Some 15\<rparr>]) 50000000)) = 1
   \<and> lateButPresent (foldl countRecord_spec zeroCounts
      [(row 1 ''e1'' (Some 32400000) None (Some 46800000) None)\<lparr>minutes_late := Some 15\<rparr>]) = 0
   \<and> presentCount (getTodayAttendanceSummary
        (storeOf [row 1 ''e1'' None None None None]) 50000000) = 0"
  by (simp add: getTodayAttendanceSummary_def countRecord_def countRecord_spec_def zeroCounts_def
        isoDate_def msPerDay_def ex_defs)

text \<open>
  C9, amended. With the store answering, each of today's rows is counted in at most one
  bucket, tested in this order: first session open (currently present, and late when
  \<open>minutes_late > 0\<close>); else second session open (currently present); else a completed-session
  marker (checked out). A row matching none is counted nowhere. The absent count is
  \<open>max(0, active employees - (present + checked out))\<close> and never negative.
\<close>

theorem summary_counts:
  assumes "fault st = Healthy"
  shows "currentlyPresent (presenceBreakdown (getTodayAttendanceSummary st now))
           = int (length (filter (\<lambda>r. date r = isoDate now \<and>
                ((first_check_in_time r \<noteq> None \<and> first_check_out_time r = None)
                 \<or> (second_check_in_time r \<noteq> None \<and> second_check_out_time r = None)))
                (attendance_tbl st)))
       \<and> lateButPresent (presenceBreakdown (getTodayAttendanceSummary st now))
           = int (length (filter (\<lambda>r. date r = isoDate now \<and>
                first_check_in_time r \<noteq> None \<and> first_check_out_time r = None
                \<and> (case minutes_late r of Some n \<Rightarrow> n > 0 | None \<Rightarrow> False))
                (attendance_tbl st)))
       \<and> checkedOut (presenceBreakdown (getTodayAttendanceSummary st now))
           = int (length (filter (\<lambda>r. date r = isoDate now \<and>
                \<not> (first_check_in_time r \<noteq> None \<and> first_check_out_time r = None)
                \<and> \<not> (second_check_in_time r \<noteq> None \<and> second_check_out_time r = None)
                \<and> (second_check_out_time r \<noteq> None
                     \<or> (first_check_out_time r \<noteq> None \<and> second_check_in_time r = None)))
                (attendance_tbl st)))
       \<and> absent (presenceBreakdown (getTodayAttendanceSummary st now))
           = max 0 (int (length (filter (\<lambda>e. emp_status e = ''active'') (employees st)))
                    - (currentlyPresent (presenceBreakdown (getTodayAttendanceSummary st now))
                       + checkedOut (presenceBreakdown (getTodayAttendanceSummary st now))))
       \<and> 0 \<le> absent (presenceBreakdown (getTodayAttendanceSummary st now))"
  using assms
  by (simp add: getTodayAttendanceSummary_def Let_def foldl_countRecord_present
        foldl_countRecord_late foldl_countRecord_out zeroCounts_def conj_commute conj_left_commute)

text \<open>
  Ten active employees, three open first sessions of which one is late, two completed days:
  3 present, 1 late, 2 checked out, 5 absent.
\<close>

theorem summary_counts_witness:
  "fault storeTen = Healthy
   \<and> currentlyPresent (presenceBreakdown (getTodayAttendanceSummary storeTen 50000000)) = 3
   \<and> lateButPresent (presenceBreakdown (getTodayAttendanceSummary storeTen 50000000)) = 1
   \<and> checkedOut (presenceBreakdown (getTodayAttendanceSummary storeTen 50000000)) = 2
   \<and> absent (presenceBreakdown (getTodayAttendanceSummary storeTen 50000000)) = 5"
  using summary_counts [of storeTen 50000000]
  by (simp add: storeTen_def ex_defs isoDate_def msPerDay_def)

section \<open>The uniqueness guard\<close>

lemma floorTime_ge_base:
  "baseTime \<le> uniqueTime \<Longrightarrow> baseTime \<le> floorTime lastRecord baseTime type uniqueTime"
  by (auto simp add: floorTime_def Let_def split: option.splits)

lemma floorTime_check_out:
  "Option.bind lastRecord check_in_time = Some lastCheckIn \<Longrightarrow> baseTime \<le> uniqueTime \<Longrightarrow>
   lastCheckIn + 900000 \<le> floorTime lastRecord baseTime check_out uniqueTime"
  by (auto simp add: floorTime_def Let_def split: option.splits)

text \<open>
  The loop keeps \<open>uniqueTime\<close> at or above the base time, so a check-out candidate is never
  below the floor: either the floor replaces it, or the base time was already above the floor.
\<close>

lemma generateLoop_floor:
  "lastRecordOfDay st employeeId (isoDate baseTime) = Inr lastRecord \<Longrightarrow>
   Option.bind lastRecord check_in_time = Some lastCheckIn \<Longrightarrow>
   type = check_out \<Longrightarrow>
   baseTime \<le> uniqueTime \<Longrightarrow>
   generateLoop st employeeId baseTime type uniqueTime attempt = Inr u \<Longrightarrow>
   lastCheckIn + 900000 \<le> u"
proof (induction st employeeId baseTime type uniqueTime attempt rule: generateLoop.induct)
  case (1 st employeeId baseTime type uniqueTime attempt)
  let ?next = "floorTime lastRecord baseTime type uniqueTime + 1000 * int attempt"
  note unfold = generateLoop.simps [of st employeeId baseTime type uniqueTime attempt]
  from "1.prems"(5) have small: "attempt < 10"
    by (simp add: unfold split: if_splits)
  have floor: "lastCheckIn + 900000 \<le> ?next"
    using floorTime_check_out [OF "1.prems"(2) "1.prems"(4)] "1.prems"(3) by simp
  have base: "baseTime \<le> ?next"
    using floorTime_ge_base [OF "1.prems"(4), of lastRecord type] by simp
  show ?case
  proof (cases "probe st employeeId type ?next")
    case (Threw m)
    with "1.prems"(5) small "1.prems"(1) show ?thesis
      by (simp add: unfold)
  next
    case (Failed m)
    with "1.prems"(5) small "1.prems"(1) show ?thesis
      by (simp add: unfold)
  next
    case (Got found)
    show ?thesis
    proof (cases found)
      case None
      with Got "1.prems"(5) small "1.prems"(1) have "u = ?next"
        by (simp add: unfold)
      with floor show ?thesis by simp
    next
      case (Some r)
      with Got "1.prems"(5) small "1.prems"(1)
      have again: "generateLoop st employeeId baseTime type ?next (attempt + 1) = Inr u"
        by (simp add: unfold)
      show ?thesis
        by (rule "1.IH" [OF small "1.prems"(1) Got Some "1.prems"(1) "1.prems"(2) "1.prems"(3)
                           base again])
    qed
  qed
qed

text \<open>A returned timestamp was probed and found free.\<close>

lemma generateLoop_free:
  "generateLoop st employeeId baseTime type uniqueTime attempt = Inr u \<Longrightarrow>
   fault st = Healthy \<and> collisions st employeeId type u = []"
proof (induction st employeeId baseTime type uniqueTime attempt rule: generateLoop.induct)
  case (1 st employeeId baseTime type uniqueTime attempt)
  note unfold = generateLoop.simps [of st employeeId baseTime type uniqueTime attempt]
  from "1.prems" have small: "attempt < 10"
    by (simp add: unfold split: if_splits)
  from "1.prems" small obtain lastRecord
    where last: "lastRecordOfDay st employeeId (isoDate baseTime) = Inr lastRecord"
    by (cases "lastRecordOfDay st employeeId (isoDate baseTime)") (simp_all add: unfold)
  let ?next = "floorTime lastRecord baseTime type uniqueTime + 1000 * int attempt"
  show ?case
  proof (cases "probe st employeeId type ?next")
    case (Threw m)
    with "1.prems" small last show ?thesis by (simp add: unfold)
  next
    case (Failed m)
    with "1.prems" small last show ?thesis by (simp add: unfold)
  next
    case (Got found)
    show ?thesis
    proof (cases found)
      case None
      with Got have "fault st = Healthy \<and> collisions st employeeId type ?next = []"
        by (auto simp add: probe_def maybeSingle_def split: fault.splits list.splits)
      moreover from None Got "1.prems" small last have "u = ?next" by (simp add: unfold)
      ultimately show ?thesis by simp
    next
      case (Some r)
      with Got "1.prems" small last
      have again: "generateLoop st employeeId baseTime type ?next (attempt + 1) = Inr u"
        by (simp add: unfold)
      show ?thesis
        by (rule "1.IH" [OF small last Got Some again])
    qed
  qed
qed

text \<open>What a probe answers when the store is healthy, by the number of rows found.\<close>

lemma probe_healthy:
  assumes "fault st = Healthy"
  shows "collisions st e type u = [] \<Longrightarrow> probe st e type u = Got None"
    and "length (collisions st e type u) = 1 \<Longrightarrow> \<exists>r. probe st e type u = Got (Some r)"
    and "1 < length (collisions st e type u) \<Longrightarrow> \<exists>m. probe st e type u = Failed m"
  using assms
  by (auto simp add: probe_def maybeSingle_def split: list.splits)

lemma probe_faulty:
  "fault st = ErrorResponse m \<Longrightarrow> probe st e type u = Failed m"
  "fault st = Throws m \<Longrightarrow> probe st e type u = Threw m"
  by (simp_all add: probe_def maybeSingle_def)

text \<open>
  The loop from round \<open>a\<close> on, in a healthy store: it runs through the candidates held by
  exactly one row each and ends at the first that is not, or after round 9.
\<close>

lemma generateLoop_returns:
  assumes "fault st = Healthy" and "lastRecordOfDay st e (isoDate baseTime) = Inr lastRecord"
  shows "a \<le> k \<Longrightarrow> k < 10 \<Longrightarrow>
     (\<forall>j. a \<le> j \<and> j < k \<longrightarrow> length (collisions st e type (candidate lastRecord baseTime type j)) = 1) \<Longrightarrow>
     collisions st e type (candidate lastRecord baseTime type k) = [] \<Longrightarrow>
     generateLoop st e baseTime type (uniqueTimeAfter lastRecord baseTime type a) a
       = Inr (candidate lastRecord baseTime type k)"
proof (induction "k - a" arbitrary: a)
  case 0
  then have "a = k" by simp
  with 0 probe_healthy(1) [OF assms(1), of e type "candidate lastRecord baseTime type k"]
  show ?case
    by (simp add: generateLoop.simps [of st e baseTime type _ k] assms(2) candidate_def)
next
  case (Suc n)
  then have a: "a < k" "a < 10" by simp_all
  with Suc.prems have "length (collisions st e type (candidate lastRecord baseTime type a)) = 1"
    by simp
  from probe_healthy(2) [OF assms(1) this] obtain r
    where r: "probe st e type (candidate lastRecord baseTime type a) = Got (Some r)" by blast
  have "generateLoop st e baseTime type (uniqueTimeAfter lastRecord baseTime type (Suc a)) (Suc a)
          = Inr (candidate lastRecord baseTime type k)"
    using Suc.hyps(2) Suc.prems a by (intro Suc.hyps(1)) simp_all
  with r a show ?case
    by (simp add: generateLoop.simps [of st e baseTime type _ a] assms(2) candidate_def)
qed

lemma generateLoop_gives_up:
  assumes "fault st = Healthy" and "lastRecordOfDay st e (isoDate baseTime) = Inr lastRecord"
  shows "a \<le> 10 \<Longrightarrow>
     (\<forall>j. a \<le> j \<and> j < 10 \<longrightarrow> length (collisions st e type (candidate lastRecord baseTime type j)) = 1) \<Longrightarrow>
     generateLoop st e baseTime type (uniqueTimeAfter lastRecord baseTime type a) a
       = Inl (AttendanceError ''Unable to generate unique timestamp'')"
proof (induction "10 - a" arbitrary: a)
  case 0
  then have "a = 10" by simp
  then show ?case
    by (simp add: generateLoop.simps [of st e baseTime type _ 10])
next
  case (Suc n)
  then have a: "a < 10" by simp
  with Suc.prems have "length (collisions st e type (candidate lastRecord baseTime type a)) = 1"
    by simp
  from probe_healthy(2) [OF assms(1) this] obtain r
    where r: "probe st e type (candidate lastRecord baseTime type a) = Got (Some r)" by blast
  have "generateLoop st e baseTime type (uniqueTimeAfter lastRecord baseTime type (Suc a)) (Suc a)
          = Inl (AttendanceError ''Unable to generate unique timestamp'')"
    using Suc.hyps(2) Suc.prems a by (intro Suc.hyps(1)) simp_all
  with r a show ?case
    by (simp add: generateLoop.simps [of st e baseTime type _ a] assms(2) candidate_def)
qed

lemma generateLoop_ambiguous:
  assumes "fault st = Healthy" and "lastRecordOfDay st e (isoDate baseTime) = Inr lastRecord"
  shows "a \<le> k \<Longrightarrow> k < 10 \<Longrightarrow>
     (\<forall>j. a \<le> j \<and> j < k \<longrightarrow> length (collisions st e type (candidate lastRecord baseTime type j)) = 1) \<Longrightarrow>
     1 < length (collisions st e type (candidate lastRecord baseTime type k)) \<Longrightarrow>
     generateLoop st e baseTime type (uniqueTimeAfter lastRecord baseTime type a) a
       = Inl (AttendanceError ''Failed to generate unique timestamp'')"
proof (induction "k - a" arbitrary: a)
  case 0
  then have "a = k" by simp
  with 0 probe_healthy(3) [OF assms(1), of e type "candidate lastRecord baseTime type k"]
  show ?case
    by (auto simp add: generateLoop.simps [of st e baseTime type _ k] assms(2) candidate_def)
next
  case (Suc n)
  then have a: "a < k" "a < 10" by simp_all
  with Suc.prems have "length (collisions st e type (candidate lastRecord baseTime type a)) = 1"
    by simp
  from probe_healthy(2) [OF assms(1) this] obtain r
    where r: "probe st e type (candidate lastRecord baseTime type a) = Got (Some r)" by blast
  have "generateLoop st e baseTime type (uniqueTimeAfter lastRecord baseTime type (Suc a)) (Suc a)
          = Inl (AttendanceError ''Failed to generate unique timestamp'')"
    using Suc.hyps(2) Suc.prems a by (intro Suc.hyps(1)) simp_all
  with r a show ?case
    by (simp add: generateLoop.simps [of st e baseTime type _ a] assms(2) candidate_def)
qed

lemma generateUniqueTimestamp_faulty:
  "fault st = ErrorResponse m \<Longrightarrow>
     generateUniqueTimestamp st e baseTime type
       = Inl (AttendanceError ''Failed to generate unique timestamp'')"
  "fault st = Throws m \<Longrightarrow> generateUniqueTimestamp st e baseTime type = Inl (Thrown m)"
  by (simp_all add: generateUniqueTimestamp_def generateLoop.simps [of st e baseTime type _ 0]
        lastRecordOfDay_def probe_faulty)

text \<open>The candidates in closed form.\<close>

lemma floorTime_minimumTime:
  "floorTime lastRecord baseTime type u =
     (case minimumTime lastRecord type of
        Some least \<Rightarrow> if baseTime < least then least else u
      | None \<Rightarrow> u)"
  by (cases type; cases lastRecord)
     (auto simp add: floorTime_def minimumTime_def Let_def split: option.splits)

lemma uniqueTimeAfter_unfloored:
  assumes "\<And>u. floorTime lastRecord baseTime type u = u"
  shows "uniqueTimeAfter lastRecord baseTime type (Suc n) = baseTime + 500 * int n * (int n + 1)"
proof (induction n)
  case 0
  show ?case by (simp add: assms)
next
  case (Suc n)
  have "uniqueTimeAfter lastRecord baseTime type (Suc (Suc n))
          = uniqueTimeAfter lastRecord baseTime type (Suc n) + 1000 * int (Suc n)"
    by (simp only: uniqueTimeAfter.simps assms)
  with Suc show ?case by (simp add: algebra_simps)
qed

lemma candidate_closed_form:
  "candidate lastRecord baseTime type k =
     (case minimumTime lastRecord type of
        Some least \<Rightarrow>
          if baseTime < least then least + 1000 * int k
          else baseTime + 500 * int k * (int k + 1)
      | None \<Rightarrow> baseTime + 500 * int k * (int k + 1))"
proof (cases "\<exists>least. minimumTime lastRecord type = Some least \<and> baseTime < least")
  case True
  then show ?thesis
    by (auto simp add: candidate_def floorTime_minimumTime)
next
  case False
  then have "floorTime lastRecord baseTime type u = u" for u
    by (auto simp add: floorTime_minimumTime split: option.splits)
  from uniqueTimeAfter_unfloored [OF this, of k] False show ?thesis
    by (auto simp add: candidate_def split: option.splits)
qed

text \<open>The two example stores whose every probed candidate is taken.\<close>

lemma below_ten:
  "j < 10 \<Longrightarrow> j = 0 \<or> j = 1 \<or> j = 2 \<or> j = 3 \<or> j = 4 \<or> j = 5 \<or> j = 6 \<or> j = 7 \<or> j = 8
     \<or> j = (9::nat)"
  by arith

lemma storeCrowded_taken:
  "\<forall>j<10. length (collisions storeCrowded ''e1'' check_in (candidate None 32400000 check_in j)) = 1"
proof (intro allI impI)
  fix j :: nat
  assume "j < 10"
  from below_ten [OF this]
  show "length (collisions storeCrowded ''e1'' check_in (candidate None 32400000 check_in j)) = 1"
    by (elim disjE)
       (simp_all add: candidate_closed_form minimumTime_def collisions_def storeCrowded_def ex_defs)
qed

text \<open>
  C5, as stated, fails twice. A check-in as the recorder stores it is in the column
  \<open>first_check_in_time\<close>; the guard reads \<open>check_in_time\<close>, finds it null, and returns a
  check-out one second after the 09:00 check-in unchanged, not moved to 09:15. And there is a
  third outcome: when the probe query answers an error the guard fails at once, on the first
  attempt, with "Failed to generate unique timestamp".
\<close>

theorem generateUniqueTimestamp_floor_and_error_counterexample:
  "attendance_tbl storeMorning = [row 1 ''e1'' (Some 32400000) None None None]
   \<and> first_check_in_time (row 1 ''e1'' (Some 32400000) None None None) = Some 32400000
   \<and> generateUniqueTimestamp storeMorning ''e1'' 32401000 check_out = Inr 32401000
   \<and> (32401000::int) < 32400000 + 15 * 60 * 1000
   \<and> generateUniqueTimestamp ((storeOf [])\<lparr>fault := ErrorResponse ''timeout''\<rparr>)
        ''e1'' 32400000 check_in
      = Inl (AttendanceError ''Failed to generate unique timestamp'')"
  by (simp add: guard_defs ex_defs storeMorning_def)

text \<open>
  C5, amended. The check-in that counts is the \<open>check_in_time\<close> of the employee's latest row
  of the day, a column the recorder does not write: called for a check-out when that column
  holds a time, \<open>generateUniqueTimestamp\<close> returns, when it returns a timestamp, one of at
  least that time + 15 minutes. A returned timestamp is held by no row of the employee in the
  column of the type.

  When the store answers every query, round \<open>k\<close> of the loop (k = 0, ..., 9) probes candidate
  \<open>k\<close>: the minimum time + k seconds when the base time is below the minimum time of the
  latest row, and the base time + k(k+1)/2 seconds otherwise. The guard returns candidate
  \<open>k\<close>, for \<open>k < 10\<close>, when every earlier candidate is held by exactly one row and candidate
  \<open>k\<close> by none; it fails with "Unable to generate unique timestamp" when each of the ten
  candidates is held by exactly one row; and it fails with "Failed to generate unique
  timestamp" when the first candidate not held by exactly one row is held by several. When
  the store answers queries with an error it fails with "Failed to generate unique timestamp"
  in round 0, and when the client throws it passes the exception on.
\<close>

theorem generateUniqueTimestamp_guarantees:
  "(lastRecordOfDay st employeeId (isoDate baseTime) = Inr (Some lastRecord) \<longrightarrow>
    check_in_time lastRecord = Some lastCheckIn \<longrightarrow>
    generateUniqueTimestamp st employeeId baseTime check_out = Inr u \<longrightarrow>
    lastCheckIn + 15 * 60 * 1000 \<le> u)
   \<and> (generateUniqueTimestamp st employeeId baseTime type = Inr u \<longrightarrow>
        fault st = Healthy \<and> collisions st employeeId type u = [])
   \<and> (fault st = Healthy \<and> lastRecordOfDay st employeeId (isoDate baseTime) = Inr latest \<longrightarrow>
        (k < 10 \<and>
         (\<forall>j<k. length (collisions st employeeId type (candidate latest baseTime type j)) = 1) \<and>
         collisions st employeeId type (candidate latest baseTime type k) = [] \<longrightarrow>
         generateUniqueTimestamp st employeeId baseTime type
           = Inr (candidate latest baseTime type k))
      \<and> ((\<forall>j<10. length (collisions st employeeId type (candidate latest baseTime type j)) = 1) \<longrightarrow>
         generateUniqueTimestamp st employeeId baseTime type
           = Inl (AttendanceError ''Unable to generate unique timestamp''))
      \<and> (k < 10 \<and>
         (\<forall>j<k. length (collisions st employeeId type (candidate latest baseTime type j)) = 1) \<and>
         1 < length (collisions st employeeId type (candidate latest baseTime type k)) \<longrightarrow>
         generateUniqueTimestamp st employeeId baseTime type
           = Inl (AttendanceError ''Failed to generate unique timestamp'')))
   \<and> (fault st = ErrorResponse m \<longrightarrow>
        generateUniqueTimestamp st employeeId baseTime type
          = Inl (AttendanceError ''Failed to generate unique timestamp''))
   \<and> (fault st = Throws m \<longrightarrow>
        generateUniqueTimestamp st employeeId baseTime type = Inl (Thrown m))
   \<and> candidate latest baseTime type k =
       (case minimumTime latest type of
          Some least \<Rightarrow>
            if baseTime < least then least + 1000 * int k
            else baseTime + 500 * int k * (int k + 1)
        | None \<Rightarrow> baseTime + 500 * int k * (int k + 1))"
proof -
  have a: "lastCheckIn + 15 * 60 * 1000 \<le> u"
    if "lastRecordOfDay st employeeId (isoDate baseTime) = Inr (Some lastRecord)"
      and "check_in_time lastRecord = Some lastCheckIn"
      and "generateUniqueTimestamp st employeeId baseTime check_out = Inr u"
    using generateLoop_floor
            [of st employeeId baseTime "Some lastRecord" lastCheckIn check_out baseTime 0 u] that
    by (simp add: generateUniqueTimestamp_def)
  have b: "fault st = Healthy \<and> collisions st employeeId type u = []"
    if "generateUniqueTimestamp st employeeId baseTime type = Inr u"
    using generateLoop_free [of st employeeId baseTime type baseTime 0 u] that
    by (simp add: generateUniqueTimestamp_def)
  have c: "generateUniqueTimestamp st employeeId baseTime type
             = Inr (candidate latest baseTime type k)"
    if "fault st = Healthy" and "lastRecordOfDay st employeeId (isoDate baseTime) = Inr latest"
      and "k < 10"
      and "\<forall>j<k. length (collisions st employeeId type (candidate latest baseTime type j)) = 1"
      and "collisions st employeeId type (candidate latest baseTime type k) = []"
    using generateLoop_returns [OF that(1,2), of 0 k type] that(3,4,5)
    by (simp add: generateUniqueTimestamp_def)
  have d: "generateUniqueTimestamp st employeeId baseTime type
             = Inl (AttendanceError ''Unable to generate unique timestamp'')"
    if "fault st = Healthy" and "lastRecordOfDay st employeeId (isoDate baseTime) = Inr latest"
      and "\<forall>j<10. length (collisions st employeeId type (candidate latest baseTime type j)) = 1"
    using generateLoop_gives_up [OF that(1,2), of 0 type] that(3)
    by (simp add: generateUniqueTimestamp_def)
  have e: "generateUniqueTimestamp st employeeId baseTime type
             = Inl (AttendanceError ''Failed to generate unique timestamp'')"
    if "fault st = Healthy" and "lastRecordOfDay st employeeId (isoDate baseTime) = Inr latest"
      and "k < 10"
      and "\<forall>j<k. length (collisions st employeeId type (candidate latest baseTime type j)) = 1"
      and "1 < length (collisions st employeeId type (candidate latest baseTime type k))"
    using generateLoop_ambiguous [OF that(1,2), of 0 k type] that(3,4,5)
    by (simp add: generateUniqueTimestamp_def)
  note f = generateUniqueTimestamp_faulty [of st m employeeId baseTime type]
  note g = candidate_closed_form [of latest baseTime type k]
  from a b c d e f g show ?thesis by blast
qed

text \<open>
  A check-out one second after the 09:00 check-in of \<open>storeLegacy\<close> is moved to 09:15. A
  check-in at 09:00 there finds 09:00 taken and returns the next candidate, 09:00:01. When
  each of the ten candidates is taken once the guard gives up; when the first is taken twice
  it fails at once.
\<close>

theorem generateUniqueTimestamp_guarantees_witness:
  "lastRecordOfDay storeLegacy ''e1'' (isoDate 32401000)
     = Inr (Some ((row 1 ''e1'' (Some 32400000) None None None)\<lparr>check_in_time := Some 32400000\<rparr>))
   \<and> generateUniqueTimestamp storeLegacy ''e1'' 32401000 check_out = Inr 33300000
   \<and> (32400000::int) + 15 * 60 * 1000 \<le> 33300000
   \<and> collisions storeLegacy ''e1'' check_out 33300000 = []
   \<and> generateUniqueTimestamp storeLegacy ''e1'' 32400000 check_in = Inr 32401000
   \<and> generateUniqueTimestamp storeCrowded ''e1'' 32400000 check_in
       = Inl (AttendanceError ''Unable to generate unique timestamp'')
   \<and> generateUniqueTimestamp storeTwice ''e1'' 32400000 check_in
       = Inl (AttendanceError ''Failed to generate unique timestamp'')
   \<and> generateUniqueTimestamp (storeCrowded\<lparr>fault := ErrorResponse ''timeout''\<rparr>) ''e1'' 32400000
        check_in
       = Inl (AttendanceError ''Failed to generate unique timestamp'')
   \<and> generateUniqueTimestamp (storeCrowded\<lparr>fault := Throws ''offline''\<rparr>) ''e1'' 32400000
        check_in
       = Inl (Thrown ''offline'')"
  using generateUniqueTimestamp_guarantees
          [where st = storeLegacy and employeeId = "''e1''" and baseTime = 32401000
             and lastRecord = "(row 1 ''e1'' (Some 32400000) None None None)
                                \<lparr>check_in_time := Some 32400000\<rparr>"
             and lastCheckIn = 32400000 and u = 33300000 and type = check_out
             and latest = "Some ((row 1 ''e1'' (Some 32400000) None None None)
                                   \<lparr>check_in_time := Some 32400000\<rparr>)"
             and k = 0 and m = "''''"]
        generateUniqueTimestamp_guarantees
          [where st = storeLegacy and employeeId = "''e1''" and baseTime = 32400000
             and lastRecord = "(row 1 ''e1'' (Some 32400000) None None None)
                                \<lparr>check_in_time := Some 32400000\<rparr>"
             and lastCheckIn = 32400000 and u = 32401000 and type = check_in
             and latest = "Some ((row 1 ''e1'' (Some 32400000) None None None)
                                   \<lparr>check_in_time := Some 32400000\<rparr>)"
             and k = 1 and m = "''''"]
        generateUniqueTimestamp_guarantees
          [where st = storeCrowded and employeeId = "''e1''" and baseTime = 32400000
             and lastRecord = "row 1 ''e1'' None None None None"
             and lastCheckIn = 0 and u = 0 and type = check_in and latest = None
             and k = 0 and m = "''''"]
        generateUniqueTimestamp_guarantees
          [where st = storeTwice and employeeId = "''e1''" and baseTime = 32400000
             and lastRecord = "row 1 ''e1'' None None None None"
             and lastCheckIn = 0 and u = 0 and type = check_in and latest = None
             and k = 0 and m = "''''"]
        generateUniqueTimestamp_guarantees
          [where st = "storeCrowded\<lparr>fault := ErrorResponse ''timeout''\<rparr>"
             and employeeId = "''e1''" and baseTime = 32400000
             and lastRecord = "row 1 ''e1'' None None None None"
             and lastCheckIn = 0 and u = 0 and type = check_in and latest = None
             and k = 0 and m = "''timeout''"]
        generateUniqueTimestamp_guarantees
          [where st = "storeCrowded\<lparr>fault := Throws ''offline''\<rparr>"
             and employeeId = "''e1''" and baseTime = 32400000
             and lastRecord = "row 1 ''e1'' None None None None"
             and lastCheckIn = 0 and u = 0 and type = check_in and latest = None
             and k = 0 and m = "''offline''"]
        storeCrowded_taken
  by (simp add: lastRecordOfDay_def collisions_def isoDate_def msPerDay_def candidate_def
        floorTime_def ex_defs storeLegacy_def storeTwice_def storeCrowded_def)

section \<open>The recorder\<close>

text \<open>What a successful call went through, and that a failed call leaves the store alone.\<close>

lemma recordAttendance_success:
  assumes "recordAttendance ev st now e = (Inr res, st')"
  shows "\<exists>ros existing nextStatus.
      todaysRecord st e now = Got existing
    \<and> determineAction existing = Inr (action res, nextStatus)
    \<and> validateSequence existing (action res) now = None
    \<and> performWrite ev st (buildWrite ev e ros existing (action res) nextStatus now)
         = (Got (stored res), st')"
  using assms
  by (auto simp add: recordAttendance_def
        split: fetched.splits if_splits option.splits sum.splits prod.splits)

lemma recordAttendance_failure_keeps_store:
  assumes "recordAttendance ev st now e = (Inl err, st')"
  shows "st' = st"
  using assms
  by (auto simp add: recordAttendance_def performWrite_def
        split: fetched.splits if_splits option.splits sum.splits prod.splits fault.splits
               storeWrite.splits)

lemma todaysRecord_member:
  assumes "todaysRecord st e now = Got (Some prior)"
  shows "prior \<in> set (attendance_tbl st)"
proof -
  from assms
  have "filter (\<lambda>r. employee_id r = e \<and> date r = isoDate now) (attendance_tbl st) = [prior]"
    by (auto simp add: todaysRecord_def maybeSingle_def split: fault.splits list.splits)
  then have "prior \<in> set (filter (\<lambda>r. employee_id r = e \<and> date r = isoDate now)
                              (attendance_tbl st))"
    by simp
  then show ?thesis by simp
qed

lemma determineAction_cases:
  assumes "determineAction existing = Inr (a, s)"
  shows "(a = first_check_in \<and> existing = None)
       \<or> (\<exists>r. existing = Some r \<and> a = first_check_out \<and> first_check_out_time r = None)
       \<or> (\<exists>r. existing = Some r \<and> a = second_check_in \<and> second_check_in_time r = None)
       \<or> (\<exists>r. existing = Some r \<and> a = second_check_out \<and> second_check_out_time r = None)"
  using assms by (auto simp add: determineAction_def split: option.splits if_splits)

text \<open>What the store keeps of the object it is sent.\<close>

lemma insertRow_result:
  "insertRow st d = (r, st') \<Longrightarrow>
     sessionTimes r = sessionTimes d \<and> last_action r = last_action d
     \<and> is_second_session r = is_second_session d
     \<and> previous_session_id r = previous_session_id d
     \<and> attendance_tbl st' = attendance_tbl st @ [r]
     \<and> (rec_id d = None \<longrightarrow> rec_id r = Some (next_id st))"
  by (auto simp add: insertRow_def Let_def sessionTimes_def)

lemma upsertRow_result:
  "upsertRow st d = (r, st') \<Longrightarrow>
     sessionTimes r = sessionTimes d \<and> last_action r = last_action d
     \<and> is_second_session r = is_second_session d
     \<and> previous_session_id r = previous_session_id d"
  by (auto simp add: upsertRow_def insertRow_def Let_def sessionTimes_def split: option.splits)

lemma find_never: "find (\<lambda>r. False) xs = None"
  by (induction xs) simp_all

lemma find_member: "x \<in> set xs \<Longrightarrow> P x \<Longrightarrow> \<exists>y. find P xs = Some y"
  by (induction xs) auto

lemma upsertRow_new: "rec_id d = None \<Longrightarrow> upsertRow st d = insertRow st d"
  by (simp add: upsertRow_def find_never)

lemma upsertRow_in_place:
  assumes "upsertRow st d = (r, st')" and "prior \<in> set (attendance_tbl st)"
    and "rec_id prior \<noteq> None" and "rec_id d = rec_id prior"
  shows "rec_id r = rec_id prior
       \<and> attendance_tbl st'
           = map (\<lambda>x. if rec_id x = rec_id prior then r else x) (attendance_tbl st)"
proof -
  from find_member [of prior "attendance_tbl st" "\<lambda>x. rec_id d \<noteq> None \<and> rec_id x = rec_id d"]
       assms
  obtain old
    where "find (\<lambda>x. rec_id d \<noteq> None \<and> rec_id x = rec_id d) (attendance_tbl st) = Some old"
    by auto
  with assms show ?thesis
    by (auto simp add: upsertRow_def Let_def)
qed

lemma performWrite_Insert:
  "performWrite ev st (Insert d) = (Got r, st') \<Longrightarrow> insertRow st d = (r, st')"
  by (auto simp add: performWrite_def split: fault.splits option.splits prod.splits)

lemma performWrite_Upsert:
  "performWrite ev st (Upsert d) = (Got r, st') \<Longrightarrow> upsertRow st d = (r, st')"
  by (auto simp add: performWrite_def split: fault.splits option.splits prod.splits)

text \<open>The object built for each action.\<close>

lemma buildWrite_second_check_in:
  "\<exists>d. buildWrite ev e ros existing second_check_in s now = Insert d
     \<and> rec_id d = None
     \<and> sessionTimes d = (Some now, None, None, None) \<and> last_action d = Some now
     \<and> is_second_session d \<and> previous_session_id d = Option.bind existing rec_id"
  by (simp add: buildWrite_def Let_def sessionTimes_def)

lemma buildWrite_other:
  "a \<noteq> second_check_in \<Longrightarrow>
   \<exists>d. buildWrite ev e ros existing a s now = Upsert d
     \<and> rec_id d = Option.bind existing rec_id
     \<and> sessionTimes d =
         (if a = first_check_in then Some now else Option.bind existing first_check_in_time,
          if a = first_check_out then Some now else Option.bind existing first_check_out_time,
          Option.bind existing second_check_in_time,
          if a = second_check_out then Some now else Option.bind existing second_check_out_time)
     \<and> last_action d = Some now
     \<and> \<not> is_second_session d \<and> previous_session_id d = None"
  by (simp add: buildWrite_def Let_def sessionTimes_def)

text \<open>The stored row of a successful call, by action.\<close>

lemma recordAttendance_stored_row:
  assumes "recordAttendance ev st now e = (Inr res, st')"
  shows "last_action (stored res) = Some now
       \<and> ((action res = first_check_in \<and> todaysRecord st e now = Got None
              \<and> sessionTimes (stored res) = (Some now, None, None, None))
          \<or> (\<exists>prior. action res = first_check_out
                \<and> todaysRecord st e now = Got (Some prior)
                \<and> first_check_out_time prior = None
                \<and> sessionTimes (stored res)
                    = (first_check_in_time prior, Some now,
                       second_check_in_time prior, second_check_out_time prior))
          \<or> (\<exists>prior. action res = second_check_out
                \<and> todaysRecord st e now = Got (Some prior)
                \<and> second_check_out_time prior = None
                \<and> sessionTimes (stored res)
                    = (first_check_in_time prior, first_check_out_time prior,
                       second_check_in_time prior, Some now))
          \<or> (\<exists>prior. action res = second_check_in
                \<and> todaysRecord st e now = Got (Some prior)
                \<and> sessionTimes (stored res) = (Some now, None, None, None)))"
proof -
  from recordAttendance_success [OF assms]
  obtain ros existing nextStatus where
    today: "todaysRecord st e now = Got existing"
    and det: "determineAction existing = Inr (action res, nextStatus)"
    and wr: "performWrite ev st (buildWrite ev e ros existing (action res) nextStatus now)
               = (Got (stored res), st')"
    by blast
  show ?thesis
  proof (cases "action res = second_check_in")
    case True
    from buildWrite_second_check_in [of ev e ros existing nextStatus now]
    obtain d where d: "buildWrite ev e ros existing second_check_in nextStatus now = Insert d"
      "sessionTimes d = (Some now, None, None, None)" "last_action d = Some now"
      by blast
    from wr True d have "insertRow st d = (stored res, st')"
      by (simp add: performWrite_Insert)
    with d have "sessionTimes (stored res) = (Some now, None, None, None)"
      "last_action (stored res) = Some now"
      by (simp_all add: insertRow_result)
    with True today determineAction_cases [OF det] show ?thesis by auto
  next
    case False
    from buildWrite_other [OF False, of ev e ros existing nextStatus now]
    obtain d where d: "buildWrite ev e ros existing (action res) nextStatus now = Upsert d"
      "sessionTimes d =
         (if action res = first_check_in then Some now
          else Option.bind existing first_check_in_time,
          if action res = first_check_out then Some now
          else Option.bind existing first_check_out_time,
          Option.bind existing second_check_in_time,
          if action res = second_check_out then Some now
          else Option.bind existing second_check_out_time)"
      "last_action d = Some now"
      by blast
    from wr d have "upsertRow st d = (stored res, st')"
      by (simp add: performWrite_Upsert)
    with d have "sessionTimes (stored res) = sessionTimes d" "last_action (stored res) = Some now"
      by (simp_all add: upsertRow_result)
    with d False today determineAction_cases [OF det] show ?thesis by auto
  qed
qed

text \<open>
  C4. For a transition other than \<open>first_check_in\<close>, when the new time is not strictly after
  the preceding event of the record (the first check-in for a first check-out, the first
  check-out for a second check-in, the second check-in for a second check-out), the recorder
  fails with the error of that transition and the store is unchanged. The employee is active
  and has a roster, as the earlier steps of the recorder require.
\<close>

theorem recordAttendance_rejects_out_of_order:
  assumes "single (fault st) (filter (\<lambda>x. emp_id x = e) (employees st)) = Got employee"
    and "emp_status employee = ''active''"
    and "getEmployeeRoster ev e = Some ros" and "ros_id ros \<noteq> []"
    and "todaysRecord st e now = Got (Some r)"
  shows "(determineAction (Some r) = Inr (first_check_out, s)
            \<and> first_check_in_time r = Some t \<and> now \<le> t \<longrightarrow>
          recordAttendance ev st now e
            = (Inl (AttendanceError ''Check-out time must be after check-in time''), st))
       \<and> (determineAction (Some r) = Inr (second_check_in, s)
            \<and> first_check_out_time r = Some t \<and> now \<le> t \<longrightarrow>
          recordAttendance ev st now e
            = (Inl (AttendanceError ''Second check-in time must be after first check-out time''),
               st))
       \<and> (determineAction (Some r) = Inr (second_check_out, s)
            \<and> second_check_in_time r = Some t \<and> now \<le> t \<longrightarrow>
          recordAttendance ev st now e
            = (Inl (AttendanceError ''Second check-out time must be after second check-in time''),
               st))"
  using assms by (simp add: recordAttendance_def validateSequence_def)

text \<open>
  A check-out at the very instant of the check-in, a second check-in at the instant of the
  first check-out, and a second check-out one millisecond before the second check-in.
\<close>

theorem recordAttendance_rejects_out_of_order_witness:
  "recordAttendance env0 storeMorning 32400000 ''e1''
     = (Inl (AttendanceError ''Check-out time must be after check-in time''), storeMorning)
   \<and> recordAttendance env0 storeBreak 43200000 ''e1''
     = (Inl (AttendanceError ''Second check-in time must be after first check-out time''),
        storeBreak)
   \<and> recordAttendance env0 storeAfternoon 46799999 ''e1''
     = (Inl (AttendanceError ''Second check-out time must be after second check-in time''),
        storeAfternoon)"
  using recordAttendance_rejects_out_of_order
          [of storeMorning "''e1''" "worker ''e1''" env0 ros9to5 32400000
              "row 1 ''e1'' (Some 32400000) None None None" "''ON_BREAK''" 32400000]
        recordAttendance_rejects_out_of_order
          [of storeBreak "''e1''" "worker ''e1''" env0 ros9to5 43200000
              "row 1 ''e1'' (Some 32400000) (Some 43200000) None None" "''CHECKED_IN''" 43200000]
        recordAttendance_rejects_out_of_order
          [of storeAfternoon "''e1''" "worker ''e1''" env0 ros9to5 46799999
              "row 1 ''e1'' (Some 32400000) (Some 43200000) (Some 46800000) None"
              "''COMPLETED''" 46800000]
  by (simp add: single_def todaysRecord_def maybeSingle_def isoDate_def msPerDay_def
        determineAction_def ex_defs storeMorning_def storeBreak_def storeAfternoon_def)

text \<open>The example scans, evaluated.\<close>

lemma scanFirstIn_value:
  "scanFirstIn =
     (Inr (outcome (written 100 (Some 32400000) None None None ''CHECKED_IN'' False None 32400000)
             first_check_in),
      (storeOf [written 100 (Some 32400000) None None None ''CHECKED_IN'' False None 32400000])
        \<lparr>next_id := 101\<rparr>)"
  by (simp add: scanFirstIn_def rec_defs ex_defs written_def outcome_def)

lemma scanFirstOut_value:
  "scanFirstOut =
     (Inr (outcome (written 1 (Some 32400000) (Some 43200000) None None ''ON_BREAK'' False None
                      43200000)
             first_check_out),
      storeOf [written 1 (Some 32400000) (Some 43200000) None None ''ON_BREAK'' False None
                 43200000])"
  by (simp add: scanFirstOut_def rec_defs ex_defs storeMorning_def written_def outcome_def)

lemma scanSecondIn_value:
  "scanSecondIn =
     (Inr (outcome (written 100 (Some 46800000) None None None ''CHECKED_IN'' True (Some 1)
                      46800000)
             second_check_in),
      (storeOf [row 1 ''e1'' (Some 32400000) (Some 43200000) None None,
                written 100 (Some 46800000) None None None ''CHECKED_IN'' True (Some 1) 46800000])
        \<lparr>next_id := 101\<rparr>)"
  by (simp add: scanSecondIn_def rec_defs ex_defs storeBreak_def written_def outcome_def)

lemma scanSecondOut_value:
  "scanSecondOut =
     (Inr (outcome (written 1 (Some 32400000) (Some 43200000) (Some 46800000) (Some 61200000)
                      ''COMPLETED'' False None 61200000)
             second_check_out),
      storeOf [written 1 (Some 32400000) (Some 43200000) (Some 46800000) (Some 61200000)
                 ''COMPLETED'' False None 61200000])"
  by (simp add: scanSecondOut_def rec_defs ex_defs storeAfternoon_def written_def outcome_def)

lemma scanLegacy_value:
  "scanLegacy =
     (Inr (outcome ((written 1 (Some 32400000) (Some 32401000) None None ''ON_BREAK'' False None
                       32401000)\<lparr>check_in_time := Some 32400000\<rparr>)
             first_check_out),
      storeOf [(written 1 (Some 32400000) (Some 32401000) None None ''ON_BREAK'' False None
                  32401000)\<lparr>check_in_time := Some 32400000\<rparr>])"
  by (simp add: scanLegacy_def rec_defs ex_defs storeLegacy_def written_def outcome_def)

lemmas value_defs = outcome_def written_def row_def blank_def storeOf_def worker_def
  sessionTimes_def

text \<open>
  C7, as stated, fails for the second check-in. The record of the day has a first check-in at
  09:00 and a first check-out at 12:00; the scan at 13:00 succeeds as \<open>second_check_in\<close>, and
  the row it writes has the scan time as its first check-in and no first check-out: the two
  timestamps of the existing record are not carried over into the written row.
\<close>

theorem second_check_in_row_counterexample:
  "\<not> isl (fst scanSecondIn)
   \<and> action (projr (fst scanSecondIn)) = second_check_in
   \<and> todaysRecord storeBreak ''e1'' 46800000
        = Got (Some (row 1 ''e1'' (Some 32400000) (Some 43200000) None None))
   \<and> first_check_in_time (stored (projr (fst scanSecondIn))) = Some 46800000
   \<and> first_check_out_time (stored (projr (fst scanSecondIn))) = None"
  by (simp add: scanSecondIn_value value_defs todaysRecord_def maybeSingle_def isoDate_def
        msPerDay_def storeBreak_def)

text \<open>
  C7, amended. Every successful call writes a row in which exactly one session timestamp is
  the scan time. For \<open>first_check_in\<close> there is no record yet and the other three fields are
  null. For \<open>first_check_out\<close> and \<open>second_check_out\<close> the field of the action was null in
  the existing record and is now the scan time, and the other three fields are those of the
  existing record, unchanged. For \<open>second_check_in\<close> the written row is a new one: its first
  check-in is the scan time and its other three fields are null, whatever the existing record
  holds.
\<close>

theorem recordAttendance_written_times:
  assumes "recordAttendance ev st now e = (Inr res, st')"
  shows "(action res = first_check_in \<longrightarrow>
            todaysRecord st e now = Got None
            \<and> sessionTimes (stored res) = (Some now, None, None, None))
       \<and> (action res = first_check_out \<longrightarrow>
            (\<exists>prior. todaysRecord st e now = Got (Some prior)
               \<and> first_check_out_time prior = None
               \<and> sessionTimes (stored res)
                   = (first_check_in_time prior, Some now,
                      second_check_in_time prior, second_check_out_time prior)))
       \<and> (action res = second_check_out \<longrightarrow>
            (\<exists>prior. todaysRecord st e now = Got (Some prior)
               \<and> second_check_out_time prior = None
               \<and> sessionTimes (stored res)
                   = (first_check_in_time prior, first_check_out_time prior,
                      second_check_in_time prior, Some now)))
       \<and> (action res = second_check_in \<longrightarrow>
            (\<exists>prior. todaysRecord st e now = Got (Some prior)
               \<and> sessionTimes (stored res) = (Some now, None, None, None)))
       \<and> action res \<noteq> completed"
  using recordAttendance_stored_row [OF assms] by auto

text \<open>The four scans of a day, each from the record as the amended claim has it written.\<close>

theorem recordAttendance_written_times_witness:
  "scanFirstIn = (Inr (projr (fst scanFirstIn)), snd scanFirstIn)
   \<and> action (projr (fst scanFirstIn)) = first_check_in
   \<and> sessionTimes (stored (projr (fst scanFirstIn))) = (Some 32400000, None, None, None)
   \<and> action (projr (fst scanFirstOut)) = first_check_out
   \<and> sessionTimes (stored (projr (fst scanFirstOut)))
       = (Some 32400000, Some 43200000, None, None)
   \<and> action (projr (fst scanSecondIn)) = second_check_in
   \<and> sessionTimes (stored (projr (fst scanSecondIn))) = (Some 46800000, None, None, None)
   \<and> action (projr (fst scanSecondOut)) = second_check_out
   \<and> sessionTimes (stored (projr (fst scanSecondOut)))
       = (Some 32400000, Some 43200000, Some 46800000, Some 61200000)"
  using recordAttendance_written_times
          [where ev = env0 and st = "storeOf []" and now = 32400000 and e = "''e1''"
             and res = "projr (fst scanFirstIn)" and st' = "snd scanFirstIn",
           folded scanFirstIn_def]
        recordAttendance_written_times
          [where ev = env0 and st = storeMorning and now = 43200000 and e = "''e1''"
             and res = "projr (fst scanFirstOut)" and st' = "snd scanFirstOut",
           folded scanFirstOut_def]
        recordAttendance_written_times
          [where ev = env0 and st = storeBreak and now = 46800000 and e = "''e1''"
             and res = "projr (fst scanSecondIn)" and st' = "snd scanSecondIn",
           folded scanSecondIn_def]
        recordAttendance_written_times
          [where ev = env0 and st = storeAfternoon and now = 61200000 and e = "''e1''"
             and res = "projr (fst scanSecondOut)" and st' = "snd scanSecondOut",
           folded scanSecondOut_def]
  by (simp add: scanFirstIn_value scanFirstOut_value scanSecondIn_value scanSecondOut_value
        value_defs)

text \<open>
  C6, as stated, fails for the first check-in: there is no existing record to write in place.
  The lookup finds no row, the object is upserted without an identifier, and the table goes
  from empty to one new row.
\<close>

theorem first_check_in_creates_row_counterexample:
  "todaysRecord (storeOf []) ''e1'' 32400000 = Got None
   \<and> \<not> isl (fst scanFirstIn)
   \<and> action (projr (fst scanFirstIn)) = first_check_in
   \<and> attendance_tbl (storeOf []) = []
   \<and> attendance_tbl (snd scanFirstIn) = [stored (projr (fst scanFirstIn))]
   \<and> rec_id (stored (projr (fst scanFirstIn))) = Some 100"
  by (simp add: scanFirstIn_value value_defs todaysRecord_def maybeSingle_def)

text \<open>
  C6, amended. In a store whose rows all have identifiers, a successful call writes as
  follows. \<open>second_check_in\<close>: a new row is appended under a fresh identifier, with
  \<open>is_second_session\<close> true and \<open>previous_session_id\<close> the identifier of the existing
  record of the employee and day; the existing rows are untouched. \<open>first_check_out\<close> and
  \<open>second_check_out\<close>: the row with the identifier of the existing record is replaced in
  place and keeps that identifier, with \<open>is_second_session\<close> false and
  \<open>previous_session_id\<close> null. \<open>first_check_in\<close>: there is no existing record; a new row is
  appended, with \<open>is_second_session\<close> false and \<open>previous_session_id\<close> null.
\<close>

theorem recordAttendance_insert_or_upsert:
  assumes "recordAttendance ev st now e = (Inr res, st')" and "rows_have_ids st"
  shows "(action res = second_check_in \<longrightarrow>
            (\<exists>prior. todaysRecord st e now = Got (Some prior)
               \<and> previous_session_id (stored res) = rec_id prior)
            \<and> is_second_session (stored res)
            \<and> rec_id (stored res) = Some (next_id st)
            \<and> attendance_tbl st' = attendance_tbl st @ [stored res])
       \<and> (action res = first_check_out \<or> action res = second_check_out \<longrightarrow>
            (\<exists>prior. todaysRecord st e now = Got (Some prior)
               \<and> rec_id (stored res) = rec_id prior
               \<and> attendance_tbl st'
                   = map (\<lambda>x. if rec_id x = rec_id prior then stored res else x)
                       (attendance_tbl st))
            \<and> \<not> is_second_session (stored res)
            \<and> previous_session_id (stored res) = None)
       \<and> (action res = first_check_in \<longrightarrow>
            todaysRecord st e now = Got None
            \<and> rec_id (stored res) = Some (next_id st)
            \<and> attendance_tbl st' = attendance_tbl st @ [stored res]
            \<and> \<not> is_second_session (stored res)
            \<and> previous_session_id (stored res) = None)"
proof -
  from recordAttendance_success [OF assms(1)]
  obtain ros existing nextStatus where
    today: "todaysRecord st e now = Got existing"
    and det: "determineAction existing = Inr (action res, nextStatus)"
    and wr: "performWrite ev st (buildWrite ev e ros existing (action res) nextStatus now)
               = (Got (stored res), st')"
    by blast
  show ?thesis
  proof (cases "action res = second_check_in")
    case True
    from buildWrite_second_check_in [of ev e ros existing nextStatus now]
    obtain d where d: "buildWrite ev e ros existing second_check_in nextStatus now = Insert d"
      "rec_id d = None" "is_second_session d"
      "previous_session_id d = Option.bind existing rec_id"
      by blast
    from wr True d have "insertRow st d = (stored res, st')"
      by (simp add: performWrite_Insert)
    from insertRow_result [OF this] d
    have "is_second_session (stored res)"
      "previous_session_id (stored res) = Option.bind existing rec_id"
      "rec_id (stored res) = Some (next_id st)"
      "attendance_tbl st' = attendance_tbl st @ [stored res]"
      by simp_all
    with True today determineAction_cases [OF det] show ?thesis by auto
  next
    case False
    from buildWrite_other [OF False, of ev e ros existing nextStatus now]
    obtain d where d: "buildWrite ev e ros existing (action res) nextStatus now = Upsert d"
      "rec_id d = Option.bind existing rec_id" "\<not> is_second_session d"
      "previous_session_id d = None"
      by blast
    from wr d have up: "upsertRow st d = (stored res, st')"
      by (simp add: performWrite_Upsert)
    from upsertRow_result [OF up] d
    have flags: "\<not> is_second_session (stored res)" "previous_session_id (stored res) = None"
      by simp_all
    show ?thesis
    proof (cases existing)
      case None
      with d have noid: "rec_id d = None" by simp
      with up have "insertRow st d = (stored res, st')" by (simp add: upsertRow_new)
      from insertRow_result [OF this] noid
      have "rec_id (stored res) = Some (next_id st)"
        "attendance_tbl st' = attendance_tbl st @ [stored res]"
        by simp_all
      with None flags today False determineAction_cases [OF det] show ?thesis by auto
    next
      case (Some prior)
      with today have mem: "prior \<in> set (attendance_tbl st)"
        by (simp add: todaysRecord_member)
      with assms(2) have idp: "rec_id prior \<noteq> None"
        by (simp add: rows_have_ids_def list_all_iff)
      from Some d have "rec_id d = rec_id prior" by simp
      from upsertRow_in_place [OF up mem idp this]
      have "rec_id (stored res) = rec_id prior"
        "attendance_tbl st'
           = map (\<lambda>x. if rec_id x = rec_id prior then stored res else x) (attendance_tbl st)"
        by simp_all
      with Some flags today False determineAction_cases [OF det] show ?thesis by auto
    qed
  qed
qed

text \<open>
  The second check-in at 13:00 appends row 100 pointing back at row 1; the check-outs at
  12:00 and 17:00 rewrite row 1; the first check-in at 09:00 appends the first row.
\<close>

theorem recordAttendance_insert_or_upsert_witness:
  "rows_have_ids storeBreak
   \<and> action (projr (fst scanSecondIn)) = second_check_in
   \<and> is_second_session (stored (projr (fst scanSecondIn)))
   \<and> previous_session_id (stored (projr (fst scanSecondIn))) = Some 1
   \<and> rec_id (stored (projr (fst scanSecondIn))) = Some 100
   \<and> map rec_id (attendance_tbl (snd scanSecondIn)) = [Some 1, Some 100]
   \<and> action (projr (fst scanFirstOut)) = first_check_out
   \<and> \<not> is_second_session (stored (projr (fst scanFirstOut)))
   \<and> map rec_id (attendance_tbl (snd scanFirstOut)) = [Some 1]
   \<and> attendance_tbl (snd scanFirstOut) = [stored (projr (fst scanFirstOut))]
   \<and> action (projr (fst scanSecondOut)) = second_check_out
   \<and> attendance_tbl (snd scanSecondOut) = [stored (projr (fst scanSecondOut))]
   \<and> rec_id (stored (projr (fst scanSecondOut))) = Some 1
   \<and> action (projr (fst scanFirstIn)) = first_check_in
   \<and> previous_session_id (stored (projr (fst scanFirstIn))) = None"
  using recordAttendance_insert_or_upsert
          [where ev = env0 and st = storeBreak and now = 46800000 and e = "''e1''"
             and res = "projr (fst scanSecondIn)" and st' = "snd scanSecondIn",
           folded scanSecondIn_def]
        recordAttendance_insert_or_upsert
          [where ev = env0 and st = storeMorning and now = 43200000 and e = "''e1''"
             and res = "projr (fst scanFirstOut)" and st' = "snd scanFirstOut",
           folded scanFirstOut_def]
        recordAttendance_insert_or_upsert
          [where ev = env0 and st = storeAfternoon and now = 61200000 and e = "''e1''"
             and res = "projr (fst scanSecondOut)" and st' = "snd scanSecondOut",
           folded scanSecondOut_def]
        recordAttendance_insert_or_upsert
          [where ev = env0 and st = "storeOf []" and now = 32400000 and e = "''e1''"
             and res = "projr (fst scanFirstIn)" and st' = "snd scanFirstIn",
           folded scanFirstIn_def]
  by (simp add: scanFirstIn_value scanFirstOut_value scanSecondIn_value scanSecondOut_value
        value_defs rows_have_ids_def storeBreak_def)

section \<open>The scan time and the guard\<close>

text \<open>The recorder is its two phases, run one after the other on one store.\<close>

lemma recordAttendance_plan_commit:
  "recordAttendance ev st now e =
     (case planAttendance ev st now e of
        Inl f \<Rightarrow> (Inl f, st)
      | Inr p \<Rightarrow> commitAttendance ev st p)"
  by (simp add: recordAttendance_def planAttendance_def commitAttendance_def
        split: fetched.splits option.splits sum.splits prod.splits)

lemma planAttendance_success:
  assumes "planAttendance ev st now e = Inr p"
  shows "\<exists>ros existing nextStatus.
      fault st = Healthy
    \<and> todaysRecord st e now = Got existing
    \<and> determineAction existing = Inr (plan_action p, nextStatus)
    \<and> plan_write p = buildWrite ev e ros existing (plan_action p) nextStatus now"
  using assms
  by (auto simp add: planAttendance_def single_def
        split: fetched.splits if_splits option.splits sum.splits prod.splits fault.splits)

lemma commitAttendance_success:
  assumes "commitAttendance ev st p = (Inr res, st')"
  shows "action res = plan_action p \<and> performWrite ev st (plan_write p) = (Got (stored res), st')"
  using assms
  by (auto simp add: commitAttendance_def split: fetched.splits prod.splits)

lemma commitAttendance_rejected:
  assumes "fault st = Healthy"
    and "db_check ev (attendance_tbl st) (payload (plan_write p)) = Some message"
  shows "commitAttendance ev st p = (Inl (processFailure message), st)"
  using assms by (simp add: commitAttendance_def performWrite_def payload_def)

text \<open>The written row is in the table afterwards.\<close>

lemma find_result: "find P xs = Some y \<Longrightarrow> y \<in> set xs \<and> P y"
  by (induction xs) (auto split: if_splits)

lemma performWrite_in_table:
  assumes "performWrite ev st w = (Got r, st')"
  shows "r \<in> set (attendance_tbl st')"
proof (cases w)
  case (Insert d)
  with assms have "insertRow st d = (r, st')" by (simp add: performWrite_Insert)
  then show ?thesis by (auto simp add: insertRow_def Let_def)
next
  case (Upsert d)
  with assms have u: "upsertRow st d = (r, st')" by (simp add: performWrite_Upsert)
  show ?thesis
  proof (cases "find (\<lambda>x. rec_id d \<noteq> None \<and> rec_id x = rec_id d) (attendance_tbl st)")
    case None
    with u show ?thesis by (auto simp add: upsertRow_def insertRow_def Let_def)
  next
    case (Some old)
    from find_result [OF Some] have "old \<in> set (attendance_tbl st)" "rec_id old = rec_id d"
      by simp_all
    then have "(\<lambda>x. if rec_id x = rec_id d then r else x) old
                 \<in> set (map (\<lambda>x. if rec_id x = rec_id d then r else x) (attendance_tbl st))"
      by (intro imageI [of old "set (attendance_tbl st)", folded set_map])
    with \<open>rec_id old = rec_id d\<close> Some u show ?thesis
      by (auto simp add: upsertRow_def Let_def)
  qed
qed

lemma recordAttendance_in_table:
  assumes "recordAttendance ev st now e = (Inr res, st')"
  shows "stored res \<in> set (attendance_tbl st')"
  using recordAttendance_success [OF assms] performWrite_in_table by blast

text \<open>The row of a first check-in, and two of them written one after the other.\<close>

lemma first_check_in_write:
  assumes "performWrite ev st (buildWrite ev e ros None first_check_in s now) = (Got r, st')"
  shows "attendance_tbl st' = attendance_tbl st @ [r] \<and> fault st' = fault st
       \<and> sessionTimes r = (Some now, None, None, None)
       \<and> employee_id r = e \<and> date r = isoDate now \<and> last_action r = Some now"
proof -
  obtain d where d: "buildWrite ev e ros None first_check_in s now = Upsert d"
    and id: "rec_id d = None"
    and f: "sessionTimes d = (Some now, None, None, None)" "employee_id d = e"
      "date d = isoDate now" "last_action d = Some now"
    by (simp add: buildWrite_def Let_def sessionTimes_def)
  from assms d have "upsertRow st d = (r, st')" by (simp add: performWrite_Upsert)
  with id have "insertRow st d = (r, st')" by (simp add: upsertRow_new)
  with f show ?thesis by (auto simp add: insertRow_def Let_def sessionTimes_def)
qed

lemma raceScans_first_check_ins:
  assumes "raceScans ev st t1 t2 e = Some (Inr r1, Inr r2, st2)"
    and "action r1 = first_check_in" and "action r2 = first_check_in"
  shows "attendance_tbl st2 = attendance_tbl st @ [stored r1, stored r2]
       \<and> sessionTimes (stored r1) = (Some t1, None, None, None)
       \<and> sessionTimes (stored r2) = (Some t2, None, None, None)
       \<and> employee_id (stored r1) = e \<and> employee_id (stored r2) = e
       \<and> date (stored r1) = isoDate t1 \<and> date (stored r2) = isoDate t2"
proof -
  from assms(1) obtain p1 p2 st1
    where p1: "planAttendance ev st t1 e = Inr p1" and p2: "planAttendance ev st t2 e = Inr p2"
      and c1: "commitAttendance ev st p1 = (Inr r1, st1)"
      and c2: "commitAttendance ev st1 p2 = (Inr r2, st2)"
    by (auto simp add: raceScans_def split: sum.splits prod.splits)
  from commitAttendance_success [OF c1] commitAttendance_success [OF c2] assms(2,3)
  have a: "plan_action p1 = first_check_in" "plan_action p2 = first_check_in"
    and w1: "performWrite ev st (plan_write p1) = (Got (stored r1), st1)"
    and w2: "performWrite ev st1 (plan_write p2) = (Got (stored r2), st2)"
    by simp_all
  from planAttendance_success [OF p1] a(1) obtain ros1 s1
    where b1: "plan_write p1 = buildWrite ev e ros1 None first_check_in s1 t1"
    using determineAction_cases by fastforce
  from planAttendance_success [OF p2] a(2) obtain ros2 s2
    where b2: "plan_write p2 = buildWrite ev e ros2 None first_check_in s2 t2"
    using determineAction_cases by fastforce
  from first_check_in_write [OF w1 [unfolded b1]] first_check_in_write [OF w2 [unfolded b2]]
  show ?thesis by simp
qed

text \<open>The example scans of this section, evaluated.\<close>

lemmas race_defs = raceScans_def planAttendance_def commitAttendance_def

lemma raceHalfSecond_value:
  "raceHalfSecond =
     Some (Inr (outcome (written 100 (Some 32400000) None None None ''CHECKED_IN'' False None
                           32400000) first_check_in),
           Inr (outcome (written 101 (Some 32400500) None None None ''CHECKED_IN'' False None
                           32400500) first_check_in),
           (storeOf [written 100 (Some 32400000) None None None ''CHECKED_IN'' False None 32400000,
                     written 101 (Some 32400500) None None None ''CHECKED_IN'' False None 32400500])
             \<lparr>next_id := 102\<rparr>)"
  by (simp add: raceHalfSecond_def race_defs rec_defs ex_defs written_def outcome_def)

lemma raceSameInstant_value:
  "raceSameInstant =
     Some (Inr (outcome (written 100 (Some 32400000) None None None ''CHECKED_IN'' False None
                           32400000) first_check_in),
           Inr (outcome (written 101 (Some 32400000) None None None ''CHECKED_IN'' False None
                           32400000) first_check_in),
           (storeOf [written 100 (Some 32400000) None None None ''CHECKED_IN'' False None 32400000,
                     written 101 (Some 32400000) None None None ''CHECKED_IN'' False None 32400000])
             \<lparr>next_id := 102\<rparr>)"
  by (simp add: raceSameInstant_def race_defs rec_defs ex_defs written_def outcome_def)

lemma planAgain_value:
  "planAgain =
     \<lparr> plan_employee = worker ''e1'', plan_action = first_check_in,
       plan_write =
         Upsert ((written 100 (Some 32400500) None None None ''CHECKED_IN'' False None 32400500)
                   \<lparr>rec_id := None\<rparr>) \<rparr>"
  by (simp add: planAgain_def envUnique_def planAttendance_def rec_defs ex_defs written_def)

lemma scanThenOut_value:
  "scanThenOut =
     (Inr (outcome (written 100 (Some 32400000) (Some 32400500) None None ''ON_BREAK'' False None
                      32400500)
             first_check_out),
      (storeOf [written 100 (Some 32400000) (Some 32400500) None None ''ON_BREAK'' False None
                  32400500])\<lparr>next_id := 101\<rparr>)"
  by (simp add: scanThenOut_def scanFirstIn_value rec_defs ex_defs written_def outcome_def)

text \<open>
  C1, as stated, fails: the recorder never calls the guard and stores the scan time as it is.
  Two first check-ins of the same employee that both read the empty store, half a second
  apart, both succeed: the table then holds two rows for the employee and the day, with
  check-in times half a second apart. Made at the same instant, they leave two rows that
  differ in their identifier only. And a check-out scanned one second after the check-in is
  stored at that second, where \<open>generateUniqueTimestamp\<close> for the same store, employee and
  time returns check-in + 15 minutes.
\<close>

theorem recordAttendance_no_guard_counterexample:
  "raceHalfSecond =
     Some (Inr (outcome (written 100 (Some 32400000) None None None ''CHECKED_IN'' False None
                           32400000) first_check_in),
           Inr (outcome (written 101 (Some 32400500) None None None ''CHECKED_IN'' False None
                           32400500) first_check_in),
           (storeOf [written 100 (Some 32400000) None None None ''CHECKED_IN'' False None 32400000,
                     written 101 (Some 32400500) None None None ''CHECKED_IN'' False None 32400500])
             \<lparr>next_id := 102\<rparr>)
   \<and> first_check_in_time
        (written 100 (Some 32400000) None None None ''CHECKED_IN'' False None 32400000)
      = Some 32400000
   \<and> first_check_in_time
        (written 101 (Some 32400500) None None None ''CHECKED_IN'' False None 32400500)
      = Some 32400500
   \<and> (32400500::int) - 32400000 < 1000
   \<and> raceSameInstant =
     Some (Inr (outcome (written 100 (Some 32400000) None None None ''CHECKED_IN'' False None
                           32400000) first_check_in),
           Inr (outcome (written 101 (Some 32400000) None None None ''CHECKED_IN'' False None
                           32400000) first_check_in),
           (storeOf [written 100 (Some 32400000) None None None ''CHECKED_IN'' False None 32400000,
                     written 101 (Some 32400000) None None None ''CHECKED_IN'' False None 32400000])
             \<lparr>next_id := 102\<rparr>)
   \<and> written 101 (Some 32400000) None None None ''CHECKED_IN'' False None 32400000
      = (written 100 (Some 32400000) None None None ''CHECKED_IN'' False None 32400000)
          \<lparr>rec_id := Some 101\<rparr>
   \<and> fst scanLegacy =
       Inr (outcome ((written 1 (Some 32400000) (Some 32401000) None None ''ON_BREAK'' False None
                        32401000)\<lparr>check_in_time := Some 32400000\<rparr>)
              first_check_out)
   \<and> first_check_out_time
        ((written 1 (Some 32400000) (Some 32401000) None None ''ON_BREAK'' False None 32401000)
           \<lparr>check_in_time := Some 32400000\<rparr>)
      = Some 32401000
   \<and> generateUniqueTimestamp storeLegacy ''e1'' 32401000 check_out = Inr 33300000"
  by (simp add: raceHalfSecond_value raceSameInstant_value scanLegacy_value value_defs
        guard_defs storeLegacy_def)

text \<open>
  C1, amended. Every successful call of the recorder leaves in the table the row it returns,
  and that row holds the scan time itself, unchanged, as \<open>last_action\<close> and in the column
  of the action: \<open>first_check_in_time\<close> for a first check-in, \<open>first_check_out_time\<close> for
  a first check-out, \<open>second_check_out_time\<close> for a second check-out. A second check-in is
  a new row of the second session with the scan time as its \<open>first_check_in_time\<close>; its
  \<open>second_check_in_time\<close> stays null. The guard takes no part (the recorder is the two
  phases \<open>planAttendance\<close> and \<open>commitAttendance\<close>, neither of which calls it), so the
  timestamps stored by two successful scans are the two scan times and differ by exactly the
  time between the scans, however short.

  Nothing in the recorder keeps duplicate rows out. When two first check-ins of an employee
  both read the store before either writes and the store accepts both writes, the table gains
  two rows for the employee, one with each scan time. Only the store can refuse: a write that
  its constraints reject fails with the classified message and leaves the table as it was.
\<close>

theorem recordAttendance_persists_scan_time:
  "(recordAttendance ev st now e = (Inr res, st') \<longrightarrow>
      stored res \<in> set (attendance_tbl st')
    \<and> last_action (stored res) = Some now
    \<and> (action res = first_check_in \<longrightarrow> first_check_in_time (stored res) = Some now)
    \<and> (action res = first_check_out \<longrightarrow> first_check_out_time (stored res) = Some now)
    \<and> (action res = second_check_in \<longrightarrow>
          first_check_in_time (stored res) = Some now
        \<and> second_check_in_time (stored res) = None)
    \<and> (action res = second_check_out \<longrightarrow> second_check_out_time (stored res) = Some now)
    \<and> action res \<noteq> completed)
   \<and> (case planAttendance ev st now e of
        Inl f \<Rightarrow> (Inl f, st)
      | Inr p \<Rightarrow> commitAttendance ev st p)
     = recordAttendance ev st now e
   \<and> (recordAttendance ev st t1 e = (Inr r1, st1) \<and>
      recordAttendance ev st1 t2 e = (Inr r2, st2) \<longrightarrow>
        last_action (stored r1) = Some t1 \<and> last_action (stored r2) = Some t2
      \<and> the (last_action (stored r2)) - the (last_action (stored r1)) = t2 - t1)
   \<and> (raceScans ev st t1 t2 e = Some (Inr r1, Inr r2, st2) \<and>
      action r1 = first_check_in \<and> action r2 = first_check_in \<longrightarrow>
        attendance_tbl st2 = attendance_tbl st @ [stored r1, stored r2]
      \<and> first_check_in_time (stored r1) = Some t1 \<and> first_check_in_time (stored r2) = Some t2
      \<and> employee_id (stored r1) = e \<and> employee_id (stored r2) = e
      \<and> date (stored r1) = isoDate t1 \<and> date (stored r2) = isoDate t2)
   \<and> (fault st = Healthy \<and>
      db_check ev (attendance_tbl st) (payload (plan_write p)) = Some message \<longrightarrow>
        commitAttendance ev st p = (Inl (processFailure message), st))"
proof -
  have a: "stored res \<in> set (attendance_tbl st')
    \<and> last_action (stored res) = Some now
    \<and> (action res = first_check_in \<longrightarrow> first_check_in_time (stored res) = Some now)
    \<and> (action res = first_check_out \<longrightarrow> first_check_out_time (stored res) = Some now)
    \<and> (action res = second_check_in \<longrightarrow>
          first_check_in_time (stored res) = Some now
        \<and> second_check_in_time (stored res) = None)
    \<and> (action res = second_check_out \<longrightarrow> second_check_out_time (stored res) = Some now)
    \<and> action res \<noteq> completed"
    if "recordAttendance ev st now e = (Inr res, st')"
    using recordAttendance_stored_row [OF that] recordAttendance_in_table [OF that]
    by (auto simp add: sessionTimes_def)
  have b: "last_action (stored r1) = Some t1 \<and> last_action (stored r2) = Some t2
      \<and> the (last_action (stored r2)) - the (last_action (stored r1)) = t2 - t1"
    if "recordAttendance ev st t1 e = (Inr r1, st1)"
      and "recordAttendance ev st1 t2 e = (Inr r2, st2)"
    using recordAttendance_stored_row [OF that(1)] recordAttendance_stored_row [OF that(2)]
    by simp
  have c: "attendance_tbl st2 = attendance_tbl st @ [stored r1, stored r2]
      \<and> first_check_in_time (stored r1) = Some t1 \<and> first_check_in_time (stored r2) = Some t2
      \<and> employee_id (stored r1) = e \<and> employee_id (stored r2) = e
      \<and> date (stored r1) = isoDate t1 \<and> date (stored r2) = isoDate t2"
    if "raceScans ev st t1 t2 e = Some (Inr r1, Inr r2, st2)"
      and "action r1 = first_check_in" and "action r2 = first_check_in"
    using raceScans_first_check_ins [OF that] by (simp add: sessionTimes_def)
  note d = commitAttendance_rejected [of st ev p message]
  note e = recordAttendance_plan_commit [of ev st now e, symmetric]
  from a b c d e show ?thesis by blast
qed

text \<open>
  The check-out of \<open>scanLegacy\<close> and the second check-in of \<open>scanSecondIn\<close>; the check-in of
  \<open>scanFirstIn\<close> followed half a second later by a check-out; the two racing check-ins; and
  the write planned by the second of them refused by a store that allows one row a day.
\<close>

theorem recordAttendance_persists_scan_time_witness:
  "(stored (projr (fst scanLegacy)) \<in> set (attendance_tbl (snd scanLegacy))
    \<and> action (projr (fst scanLegacy)) = first_check_out
    \<and> first_check_out_time (stored (projr (fst scanLegacy))) = Some 32401000
    \<and> last_action (stored (projr (fst scanLegacy))) = Some 32401000)
   \<and> (stored (projr (fst scanSecondIn)) \<in> set (attendance_tbl (snd scanSecondIn))
      \<and> action (projr (fst scanSecondIn)) = second_check_in
      \<and> first_check_in_time (stored (projr (fst scanSecondIn))) = Some 46800000
      \<and> second_check_in_time (stored (projr (fst scanSecondIn))) = None)
   \<and> (the (last_action (stored (projr (fst scanThenOut))))
         - the (last_action (stored (projr (fst scanFirstIn)))) = 32400500 - 32400000)
   \<and> (attendance_tbl (snd (snd (the raceHalfSecond)))
         = attendance_tbl (storeOf []) @
             [stored (projr (fst (the raceHalfSecond))),
              stored (projr (fst (snd (the raceHalfSecond))))]
      \<and> first_check_in_time (stored (projr (fst (the raceHalfSecond)))) = Some 32400000
      \<and> first_check_in_time (stored (projr (fst (snd (the raceHalfSecond))))) = Some 32400500)
   \<and> commitAttendance envUnique (snd scanFirstIn) planAgain
       = (Inl (AttendanceError ''Attendance record already exists for today.''), snd scanFirstIn)"
proof -
  note T = recordAttendance_persists_scan_time
  have a: "stored (projr (fst scanLegacy)) \<in> set (attendance_tbl (snd scanLegacy))
    \<and> action (projr (fst scanLegacy)) = first_check_out
    \<and> first_check_out_time (stored (projr (fst scanLegacy))) = Some 32401000
    \<and> last_action (stored (projr (fst scanLegacy))) = Some 32401000"
    using T [where ev = env0 and st = storeLegacy and now = 32401000 and e = "''e1''"
               and res = "projr (fst scanLegacy)" and st' = "snd scanLegacy",
             THEN conjunct1, folded scanLegacy_def]
    by (simp add: scanLegacy_value value_defs)
  have b: "stored (projr (fst scanSecondIn)) \<in> set (attendance_tbl (snd scanSecondIn))
    \<and> action (projr (fst scanSecondIn)) = second_check_in
    \<and> first_check_in_time (stored (projr (fst scanSecondIn))) = Some 46800000
    \<and> second_check_in_time (stored (projr (fst scanSecondIn))) = None"
    using T [where ev = env0 and st = storeBreak and now = 46800000 and e = "''e1''"
               and res = "projr (fst scanSecondIn)" and st' = "snd scanSecondIn",
             THEN conjunct1, folded scanSecondIn_def]
    by (simp add: scanSecondIn_value value_defs)
  have c: "the (last_action (stored (projr (fst scanThenOut))))
         - the (last_action (stored (projr (fst scanFirstIn)))) = 32400500 - 32400000"
    using T [where ev = env0 and st = "storeOf []" and e = "''e1''"
               and ?t1.0 = 32400000 and ?r1.0 = "projr (fst scanFirstIn)"
               and ?st1.0 = "snd scanFirstIn"
               and ?t2.0 = 32400500 and ?r2.0 = "projr (fst scanThenOut)"
               and ?st2.0 = "snd scanThenOut",
             THEN conjunct2, THEN conjunct2, THEN conjunct1,
             folded scanFirstIn_def scanThenOut_def]
    by (simp add: scanFirstIn_value scanThenOut_value value_defs)
  have d: "attendance_tbl (snd (snd (the raceHalfSecond)))
         = attendance_tbl (storeOf []) @
             [stored (projr (fst (the raceHalfSecond))),
              stored (projr (fst (snd (the raceHalfSecond))))]
      \<and> first_check_in_time (stored (projr (fst (the raceHalfSecond)))) = Some 32400000
      \<and> first_check_in_time (stored (projr (fst (snd (the raceHalfSecond))))) = Some 32400500"
    using T [where ev = env0 and st = "storeOf []" and e = "''e1''"
               and ?t1.0 = 32400000 and ?r1.0 = "projr (fst (the raceHalfSecond))"
               and ?t2.0 = 32400500 and ?r2.0 = "projr (fst (snd (the raceHalfSecond)))"
               and ?st2.0 = "snd (snd (the raceHalfSecond))",
             THEN conjunct2, THEN conjunct2, THEN conjunct2, THEN conjunct1,
             folded raceHalfSecond_def]
    by (simp add: raceHalfSecond_value value_defs)
  have e: "commitAttendance envUnique (snd scanFirstIn) planAgain
       = (Inl (AttendanceError ''Attendance record already exists for today.''), snd scanFirstIn)"
    using T [where ev = envUnique and st = "snd scanFirstIn" and p = planAgain
               and message = "''unique_daily_attendance''",
             THEN conjunct2, THEN conjunct2, THEN conjunct2, THEN conjunct2]
    by (simp add: scanFirstIn_value planAgain_value value_defs envUnique_def payload_def
          processFailure_def)
  from a b c d e show ?thesis by blast
qed

end
